theory Spec2Isabelle
  imports Complex_Main
begin

section \<open>Numeric model: numpy float64 values\<close>

text \<open>
  The source computes with numpy \<open>float64\<close> scalars and arrays. A value is a finite
  number, one of the two infinities, or NaN. The arithmetic below follows the
  IEEE 754 rules for the special values, as numpy applies them (a division by zero or
  an invalid operation gives an infinity or NaN and a warning, it does not raise).
  On finite values the operations of this section are the exact real ones; they carry
  the statements that do not depend on rounding. The rounding of binary64, with its
  overflow, is added in a later section. Zero carries no sign: a zero divisor is read
  as \<open>+0.0\<close>.
\<close>

datatype float64 = Fin real | PInf | NInf | NaN

fun isfinite :: "float64 \<Rightarrow> bool" where
  "isfinite (Fin a) = True"
| "isfinite PInf = False"
| "isfinite NInf = False"
| "isfinite NaN = False"

instantiation float64 :: "{plus, minus, uminus, times, inverse, abs}"
begin

fun uminus_float64 :: "float64 \<Rightarrow> float64" where
  "uminus_float64 (Fin a) = Fin (- a)"
| "uminus_float64 PInf = NInf"
| "uminus_float64 NInf = PInf"
| "uminus_float64 NaN = NaN"

fun plus_float64 :: "float64 \<Rightarrow> float64 \<Rightarrow> float64" where
  "plus_float64 (Fin a) (Fin b) = Fin (a + b)"
| "plus_float64 NaN v = NaN"
| "plus_float64 u NaN = NaN"
| "plus_float64 PInf NInf = NaN"
| "plus_float64 NInf PInf = NaN"
| "plus_float64 PInf v = PInf"
| "plus_float64 u PInf = PInf"
| "plus_float64 NInf v = NInf"
| "plus_float64 u NInf = NInf"

definition minus_float64 :: "float64 \<Rightarrow> float64 \<Rightarrow> float64" where
  "minus_float64 u v = u + (- v)"

fun times_float64 :: "float64 \<Rightarrow> float64 \<Rightarrow> float64" where
  "times_float64 (Fin a) (Fin b) = Fin (a * b)"
| "times_float64 NaN v = NaN"
| "times_float64 u NaN = NaN"
| "times_float64 PInf (Fin b) = (if b = 0 then NaN else if 0 < b then PInf else NInf)"
| "times_float64 NInf (Fin b) = (if b = 0 then NaN else if 0 < b then NInf else PInf)"
| "times_float64 (Fin a) PInf = (if a = 0 then NaN else if 0 < a then PInf else NInf)"
| "times_float64 (Fin a) NInf = (if a = 0 then NaN else if 0 < a then NInf else PInf)"
| "times_float64 PInf PInf = PInf"
| "times_float64 PInf NInf = NInf"
| "times_float64 NInf PInf = NInf"
| "times_float64 NInf NInf = PInf"

fun divide_float64 :: "float64 \<Rightarrow> float64 \<Rightarrow> float64" where
  "divide_float64 (Fin a) (Fin b) =
     (if b = 0 then (if a = 0 then NaN else if 0 < a then PInf else NInf)
      else Fin (a / b))"
| "divide_float64 NaN v = NaN"
| "divide_float64 u NaN = NaN"
| "divide_float64 (Fin a) PInf = Fin 0"
| "divide_float64 (Fin a) NInf = Fin 0"
| "divide_float64 PInf (Fin b) = (if 0 \<le> b then PInf else NInf)"
| "divide_float64 NInf (Fin b) = (if 0 \<le> b then NInf else PInf)"
| "divide_float64 PInf PInf = NaN"
| "divide_float64 PInf NInf = NaN"
| "divide_float64 NInf PInf = NaN"
| "divide_float64 NInf NInf = NaN"

definition inverse_float64 :: "float64 \<Rightarrow> float64" where
  "inverse_float64 v = divide (Fin 1) v"

fun abs_float64 :: "float64 \<Rightarrow> float64" where
  "abs_float64 (Fin a) = Fin \<bar>a\<bar>"
| "abs_float64 PInf = PInf"
| "abs_float64 NInf = PInf"
| "abs_float64 NaN = NaN"

instance ..

end

text \<open>\<open>v ** 2\<close>\<close>

definition pow2 :: "float64 \<Rightarrow> float64" where
  "pow2 v = v * v"

text \<open>\<open>np.sqrt\<close>: the square root of a negative number is NaN.\<close>

fun np_sqrt :: "float64 \<Rightarrow> float64" where
  "np_sqrt (Fin a) = (if a < 0 then NaN else Fin (sqrt a))"
| "np_sqrt PInf = PInf"
| "np_sqrt NInf = NaN"
| "np_sqrt NaN = NaN"

fun np_sin :: "float64 \<Rightarrow> float64" where
  "np_sin (Fin a) = Fin (sin a)"
| "np_sin v = NaN"

fun np_cos :: "float64 \<Rightarrow> float64" where
  "np_cos (Fin a) = Fin (cos a)"
| "np_cos v = NaN"

text \<open>\<open>np.hypot\<close>: an infinite argument gives infinity, also beside a NaN.\<close>

fun np_hypot :: "float64 \<Rightarrow> float64 \<Rightarrow> float64" where
  "np_hypot (Fin a) (Fin b) = Fin (sqrt (a * a + b * b))"
| "np_hypot PInf v = PInf"
| "np_hypot NInf v = PInf"
| "np_hypot u PInf = PInf"
| "np_hypot u NInf = PInf"
| "np_hypot NaN v = NaN"
| "np_hypot u NaN = NaN"

text \<open>\<open>np.arcsin\<close>: NaN outside \<open>[-1, 1]\<close>.\<close>

fun np_arcsin :: "float64 \<Rightarrow> float64" where
  "np_arcsin (Fin a) = (if \<bar>a\<bar> \<le> 1 then Fin (arcsin a) else NaN)"
| "np_arcsin v = NaN"

text \<open>\<open>np.arctan2 (y, x)\<close>, the angle of the point \<open>(x, y)\<close> in \<open>(-\<pi>, \<pi>]\<close>.\<close>

fun np_arctan2 :: "float64 \<Rightarrow> float64 \<Rightarrow> float64" where
  "np_arctan2 (Fin y) (Fin x) =
     (if 0 < x then Fin (arctan (y / x))
      else if x < 0 then (if 0 \<le> y then Fin (arctan (y / x) + pi) else Fin (arctan (y / x) - pi))
      else if 0 < y then Fin (pi / 2)
      else if y < 0 then Fin (- (pi / 2))
      else Fin 0)"
| "np_arctan2 NaN v = NaN"
| "np_arctan2 u NaN = NaN"
| "np_arctan2 (Fin y) PInf = Fin 0"
| "np_arctan2 (Fin y) NInf = (if 0 \<le> y then Fin pi else Fin (- pi))"
| "np_arctan2 PInf (Fin x) = Fin (pi / 2)"
| "np_arctan2 NInf (Fin x) = Fin (- (pi / 2))"
| "np_arctan2 PInf PInf = Fin (pi / 4)"
| "np_arctan2 NInf PInf = Fin (- (pi / 4))"
| "np_arctan2 PInf NInf = Fin (3 * pi / 4)"
| "np_arctan2 NInf NInf = Fin (- (3 * pi / 4))"

subsection \<open>Arrays\<close>

text \<open>
  A one-dimensional array is a list; its shape is its length. \<open>np.sum\<close> of an empty
  array is \<open>0.0\<close>. The elementwise product is taken on arrays of one shape only (the
  callers assert it).
\<close>

primrec np_sum :: "float64 list \<Rightarrow> float64" where
  "np_sum [] = Fin 0"
| "np_sum (v # vs) = v + np_sum vs"

definition arr_mul :: "float64 list \<Rightarrow> float64 list \<Rightarrow> float64 list" where
  "arr_mul us vs = map2 (*) us vs"

definition arr_add :: "float64 list \<Rightarrow> float64 list \<Rightarrow> float64 list" where
  "arr_add us vs = map2 (+) us vs"

datatype error = AssertionError | AttributeError

section \<open>ctapipe/coordinates/ground\_frames.py\<close>

text \<open>
  Angles are in radians (the source converts with \<open>.to(u.rad)\<close>); lengths carry no unit.
  A representation's components have one common shape, so a point set is a list of
  points. \<open>pointing_direction\<close> is a frame attribute whose default is \<open>None\<close>.
\<close>

record pointing =
  alt :: float64
  az :: float64

record GroundFrame =
  g_points :: "(float64 \<times> float64 \<times> float64) list"
  g_pointing_direction :: "pointing option"

record TiltedGroundFrame =
  t_points :: "(float64 \<times> float64) list"
  t_pointing_direction :: "pointing option"

text \<open>\<open>trans[i][j] = v\<close> on a list of rows.\<close>

definition set_entry :: "float64 list list \<Rightarrow> nat \<Rightarrow> nat \<Rightarrow> float64 \<Rightarrow> float64 list list" where
  "set_entry m i j v = m[i := (m ! i)[j := v]]"

definition zeros33 :: "float64 list list" where
  "zeros33 = [[Fin 0, Fin 0, Fin 0], [Fin 0, Fin 0, Fin 0], [Fin 0, Fin 0, Fin 0]]"

definition get_shower_trans_matrix :: "float64 \<Rightarrow> float64 \<Rightarrow> float64 list list" where
  "get_shower_trans_matrix azimuth altitude =
     (let cos_z = np_sin altitude;
          sin_z = np_cos altitude;
          cos_az = np_cos azimuth;
          sin_az = np_sin azimuth;
          trans = zeros33;
          trans = set_entry trans 0 0 (cos_z * cos_az);
          trans = set_entry trans 1 0 sin_az;
          trans = set_entry trans 2 0 (sin_z * cos_az);
          trans = set_entry trans 0 1 (- cos_z * sin_az);
          trans = set_entry trans 1 1 cos_az;
          trans = set_entry trans 2 1 (- sin_z * sin_az);
          trans = set_entry trans 0 2 (- sin_z);
          trans = set_entry trans 1 2 (Fin 0);
          trans = set_entry trans 2 2 cos_z
      in trans)"

definition ground_to_tilted :: "GroundFrame \<Rightarrow> TiltedGroundFrame \<Rightarrow> error + TiltedGroundFrame" where
  "ground_to_tilted ground_coord tilted_coord =
     (case t_pointing_direction tilted_coord of
        None \<Rightarrow> Inl AttributeError
      | Some pd \<Rightarrow>
          (let altitude = alt pd;
               azimuth = az pd;
               trans = get_shower_trans_matrix azimuth altitude;
               representation =
                 map (\<lambda>(x_grd, y_grd, z_grd).
                        (trans ! 0 ! 0 * x_grd + trans ! 0 ! 1 * y_grd + trans ! 0 ! 2 * z_grd,
                         trans ! 1 ! 0 * x_grd + trans ! 1 ! 1 * y_grd + trans ! 1 ! 2 * z_grd))
                     (g_points ground_coord)
           in Inr (tilted_coord\<lparr>t_points := representation\<rparr>)))"

definition tilted_to_ground :: "TiltedGroundFrame \<Rightarrow> GroundFrame \<Rightarrow> error + GroundFrame" where
  "tilted_to_ground tilted_coord ground_coord =
     (case t_pointing_direction tilted_coord of
        None \<Rightarrow> Inl AttributeError
      | Some pd \<Rightarrow>
          (let altitude = alt pd;
               azimuth = az pd;
               trans = get_shower_trans_matrix azimuth altitude;
               representation =
                 map (\<lambda>(x_tilt, y_tilt).
                        (trans ! 0 ! 0 * x_tilt + trans ! 1 ! 0 * y_tilt,
                         trans ! 0 ! 1 * x_tilt + trans ! 1 ! 1 * y_tilt,
                         trans ! 0 ! 2 * x_tilt + trans ! 1 ! 2 * y_tilt))
                     (t_points tilted_coord)
           in Inr (ground_coord\<lparr>g_points := representation\<rparr>)))"

text \<open>
  \<open>tilt_system.transform_to(GroundFrame)\<close> runs \<open>tilted_to_ground\<close> into a ground
  frame built with its defaults.
\<close>

definition default_GroundFrame :: GroundFrame where
  "default_GroundFrame = \<lparr>g_points = [], g_pointing_direction = None\<rparr>"

definition project_to_ground :: "TiltedGroundFrame \<Rightarrow> error + GroundFrame" where
  "project_to_ground tilt_system =
     (case tilted_to_ground tilt_system default_GroundFrame of
        Inl e \<Rightarrow> Inl e
      | Inr ground_system \<Rightarrow>
          (case t_pointing_direction tilt_system of
             None \<Rightarrow> Inl AttributeError
           | Some pd \<Rightarrow>
               (let trans = get_shower_trans_matrix (az pd) (alt pd)
                in Inr \<lparr>g_points =
                          map (\<lambda>(x_initial, y_initial, z_initial).
                                 (x_initial - trans ! 2 ! 0 * z_initial / trans ! 2 ! 2,
                                  y_initial - trans ! 2 ! 1 * z_initial / trans ! 2 ! 2,
                                  Fin 0))
                              (g_points ground_system),
                        g_pointing_direction = None\<rparr>)))"

section \<open>ctapipe/reco/hillas.py\<close>

text \<open>
  The local variables of \<open>hillas_parameters\<close>, in the order of their assignment
  (\<open>v_s\<close> is \<open>_s\<close>). The function returns some of them in the dictionary \<open>p\<close>.
\<close>

record hillas_locals =
  v_s :: float64
  v_m_x :: float64
  v_m_y :: float64
  v_m_xx :: float64
  v_m_yy :: float64
  v_m_xy :: float64
  v_S_xx :: float64
  v_S_yy :: float64
  v_S_xy :: float64
  v_d :: float64
  v_temp :: float64
  v_a :: float64
  v_b :: float64
  v_width_2 :: float64
  v_width :: float64
  v_length_2 :: float64
  v_length :: float64
  v_miss :: float64
  v_r :: float64
  v_sin_theta :: float64
  v_cos_theta :: float64
  v_q :: "float64 list"
  v_m_q :: float64
  v_m_qq :: float64
  v_azwidth_2 :: float64
  v_azwidth :: float64

definition hillas_body :: "float64 list \<Rightarrow> float64 list \<Rightarrow> float64 list \<Rightarrow> hillas_locals" where
  "hillas_body x y s =
     (let s_sum = np_sum s;
          m_x = np_sum (arr_mul s x) / s_sum;
          m_y = np_sum (arr_mul s y) / s_sum;
          m_xx = np_sum (arr_mul (arr_mul s x) x) / s_sum;
          m_yy = np_sum (arr_mul (arr_mul s y) y) / s_sum;
          m_xy = np_sum (arr_mul (arr_mul s x) y) / s_sum;
          S_xx = m_xx - m_x * m_x;
          S_yy = m_yy - m_y * m_y;
          S_xy = m_xy - m_x * m_y;
          d = S_yy - S_xx;
          temp = d * d + Fin 4 * S_xy * S_xy;
          a = (d + np_sqrt temp) / (Fin 2 * S_xy);
          b = m_y - a * m_x;
          width_2 = (S_yy + a * a * S_xx - Fin 2 * a * S_xy) / (Fin 1 + a * a);
          width = np_sqrt width_2;
          length_2 = (S_xx + a * a * S_yy + Fin 2 * a * S_xy) / (Fin 1 + a * a);
          length_h = np_sqrt length_2;
          miss = \<bar>b / (Fin 1 + a * a)\<bar>;
          r = np_sqrt (m_x * m_x + m_y * m_y);
          sin_theta = m_y / r;
          cos_theta = m_x / r;
          q = arr_add (map (\<lambda>x_i. (m_x - x_i) * sin_theta) x)
                      (map (\<lambda>y_i. (y_i - m_y) * cos_theta) y);
          m_q = np_sum (arr_mul s q) / s_sum;
          m_qq = np_sum (arr_mul (arr_mul s q) q) / s_sum;
          azwidth_2 = m_qq - m_q * m_q;
          azwidth = np_sqrt azwidth_2
      in \<lparr>v_s = s_sum, v_m_x = m_x, v_m_y = m_y, v_m_xx = m_xx, v_m_yy = m_yy,
          v_m_xy = m_xy, v_S_xx = S_xx, v_S_yy = S_yy, v_S_xy = S_xy, v_d = d,
          v_temp = temp, v_a = a, v_b = b, v_width_2 = width_2, v_width = width,
          v_length_2 = length_2, v_length = length_h, v_miss = miss, v_r = r,
          v_sin_theta = sin_theta, v_cos_theta = cos_theta, v_q = q, v_m_q = m_q,
          v_m_qq = m_qq, v_azwidth_2 = azwidth_2, v_azwidth = azwidth\<rparr>)"

text \<open>The dictionary \<open>p\<close> returned by \<open>hillas_parameters\<close>, one field for each key.\<close>

record hillas_p =
  p_x :: float64
  p_y :: float64
  p_a :: float64
  p_b :: float64
  p_width :: float64
  p_length :: float64
  p_miss :: float64
  p_r :: float64
  p_azwidth :: float64

definition hillas_parameters ::
  "float64 list \<Rightarrow> float64 list \<Rightarrow> float64 list \<Rightarrow> error + hillas_p" where
  "hillas_parameters x y s =
     (if length x \<noteq> length s then Inl AssertionError
      else if length y \<noteq> length s then Inl AssertionError
      else
       (let v = hillas_body x y s
        in Inr \<lparr>p_x = v_m_x v, p_y = v_m_y v, p_a = v_a v, p_b = v_b v,
                p_width = v_width v, p_length = v_length v, p_miss = v_miss v,
                p_r = v_r v, p_azwidth = v_azwidth v\<rparr>))"

text \<open>
  The local variables of \<open>hillas_parameters_2\<close>. The function returns some of them in
  its dictionary; \<open>miss\<close> stays local and enters the result through \<open>alpha\<close>.
\<close>

record hillas_2_locals =
  l_size :: float64
  l_moms :: "float64 list"
  l_vx2 :: float64
  l_vy2 :: float64
  l_vxy :: float64
  l_dd :: float64
  l_zz :: float64
  l_uu :: float64
  l_vv :: float64
  l_miss :: float64
  l_width :: float64
  l_length :: float64
  l_distance :: float64
  l_azwidth :: float64
  l_tanpsi_numer :: float64
  l_tanpsi_denom :: float64
  l_psi :: float64
  l_alpha :: float64
  l_phi :: float64

definition hillas_2_body :: "float64 list \<Rightarrow> float64 list \<Rightarrow> float64 list \<Rightarrow> hillas_2_locals" where
  "hillas_2_body pix_x pix_y image_arr =
     (let size_h = np_sum image_arr;
          momdata = map (\<lambda>row. arr_mul row image_arr)
                      [pix_x, pix_y, arr_mul pix_x pix_x, arr_mul pix_y pix_y,
                       arr_mul pix_x pix_y];
          moms = map (\<lambda>row. np_sum row / size_h) momdata;
          vx2 = moms ! 2 - pow2 (moms ! 0);
          vy2 = moms ! 3 - pow2 (moms ! 1);
          vxy = moms ! 4 - moms ! 0 * moms ! 1;
          dd = vy2 - vx2;
          zz = np_sqrt (pow2 dd + Fin 4 * pow2 vxy);
          uu = Fin 1 + dd / zz;
          vv = Fin 2 - uu;
          miss = np_sqrt ((uu * pow2 (moms ! 0) + vv * pow2 (moms ! 1)) / Fin 2
                          - moms ! 0 * moms ! 1 * Fin 2 * vxy / zz);
          width = np_sqrt (vx2 + vy2 - zz);
          length_h = np_sqrt (vx2 + vy2 + zz);
          distance = np_hypot (moms ! 0) (moms ! 1);
          azwidth = np_sqrt (moms ! 2 + moms ! 3 - zz);
          tanpsi_numer = (dd + zz) * moms ! 1 + Fin 2 * vxy * moms ! 0;
          tanpsi_denom = (Fin 2 * vxy * moms ! 1) - (dd - zz) * moms ! 0;
          psi = Fin pi / Fin 2 + np_arctan2 tanpsi_numer tanpsi_denom;
          alpha = np_arcsin (miss / distance);
          phi = np_arctan2 (moms ! 1) (moms ! 0)
      in \<lparr>l_size = size_h, l_moms = moms, l_vx2 = vx2, l_vy2 = vy2, l_vxy = vxy,
          l_dd = dd, l_zz = zz, l_uu = uu, l_vv = vv, l_miss = miss, l_width = width,
          l_length = length_h, l_distance = distance, l_azwidth = azwidth,
          l_tanpsi_numer = tanpsi_numer, l_tanpsi_denom = tanpsi_denom,
          l_psi = psi, l_alpha = alpha, l_phi = phi\<rparr>)"

text \<open>The dictionary returned by \<open>hillas_parameters_2\<close>.\<close>

record hillas_p2 =
  h_size :: float64
  h_cx :: float64
  h_cy :: float64
  h_length :: float64
  h_width :: float64
  h_distance :: float64
  h_azwidth :: float64
  h_psi :: float64
  h_phi :: float64
  h_alpha :: float64

definition hillas_parameters_2 ::
  "float64 list \<Rightarrow> float64 list \<Rightarrow> float64 list \<Rightarrow> error + hillas_p2" where
  "hillas_parameters_2 pix_x pix_y image_arr =
     (if length pix_x \<noteq> length image_arr then Inl AssertionError
      else if length pix_y \<noteq> length image_arr then Inl AssertionError
      else
       (let l = hillas_2_body pix_x pix_y image_arr
        in Inr \<lparr>h_size = l_size l, h_cx = l_moms l ! 0, h_cy = l_moms l ! 1,
                h_length = l_length l, h_width = l_width l, h_distance = l_distance l,
                h_azwidth = l_azwidth l, h_psi = l_psi l, h_phi = l_phi l,
                h_alpha = l_alpha l\<rparr>))"

section \<open>The same arithmetic with binary64 rounding\<close>

text \<open>
  A \<open>float64\<close> is a binary64 number: 53 significant bits, exponents from \<open>-1022\<close> to
  \<open>1023\<close>, subnormal numbers below \<open>2 powi (-1022)\<close>. \<open>round_double\<close> takes a real number
  to the nearest such number, a tie to the one with even last bit, and to an infinity
  from \<open>2 powi 1024 - 2 powi 970\<close> on. The operations \<open>+\<close>, \<open>-\<close>, \<open>*\<close>, \<open>/\<close> and \<open>sqrt\<close> of
  IEEE 754 return the rounded exact result; \<open>v ** 2\<close> is taken as the rounded product, and
  \<open>hypot\<close>, \<open>arcsin\<close> and \<open>arctan2\<close>, which come from the C library, as correctly rounded.
  \<open>np.sum\<close> adds an array of fewer than 8 elements from left to right, starting from
  zero, as \<open>r_sum\<close> does; longer arrays are added in blocks, which \<open>r_sum\<close> does not follow.
  As before, zero carries no sign.
\<close>

definition round_half_even :: "real \<Rightarrow> int" where
  "round_half_even r =
     (let f = \<lfloor>r\<rfloor>
      in if r - of_int f < 1 / 2 then f
         else if 1 / 2 < r - of_int f then f + 1
         else if even f then f else f + 1)"

definition binade :: "real \<Rightarrow> int" where
  "binade x = max \<lfloor>log 2 \<bar>x\<bar>\<rfloor> (- 1022)"

definition round_real :: "real \<Rightarrow> real" where
  "round_real x =
     (if x = 0 then 0
      else of_int (round_half_even (x / 2 powi (binade x - 52))) * 2 powi (binade x - 52))"

definition round_double :: "real \<Rightarrow> float64" where
  "round_double x =
     (let y = round_real x
      in if 2 powi 1024 \<le> y then PInf else if y \<le> - (2 powi 1024) then NInf else Fin y)"

fun rnd64 :: "float64 \<Rightarrow> float64" where
  "rnd64 (Fin a) = round_double a"
| "rnd64 PInf = PInf"
| "rnd64 NInf = NInf"
| "rnd64 NaN = NaN"

definition r_add :: "float64 \<Rightarrow> float64 \<Rightarrow> float64" where
  "r_add u v = rnd64 (u + v)"

definition r_sub :: "float64 \<Rightarrow> float64 \<Rightarrow> float64" where
  "r_sub u v = rnd64 (u - v)"

definition r_mul :: "float64 \<Rightarrow> float64 \<Rightarrow> float64" where
  "r_mul u v = rnd64 (u * v)"

definition r_div :: "float64 \<Rightarrow> float64 \<Rightarrow> float64" where
  "r_div u v = rnd64 (u / v)"

definition r_pow2 :: "float64 \<Rightarrow> float64" where
  "r_pow2 v = r_mul v v"

definition r_sqrt :: "float64 \<Rightarrow> float64" where
  "r_sqrt v = rnd64 (np_sqrt v)"

definition r_hypot :: "float64 \<Rightarrow> float64 \<Rightarrow> float64" where
  "r_hypot u v = rnd64 (np_hypot u v)"

definition r_arcsin :: "float64 \<Rightarrow> float64" where
  "r_arcsin v = rnd64 (np_arcsin v)"

definition r_arctan2 :: "float64 \<Rightarrow> float64 \<Rightarrow> float64" where
  "r_arctan2 u v = rnd64 (np_arctan2 u v)"

definition r_sum :: "float64 list \<Rightarrow> float64" where
  "r_sum vs = foldl r_add (Fin 0) vs"

definition r_arr_mul :: "float64 list \<Rightarrow> float64 list \<Rightarrow> float64 list" where
  "r_arr_mul us vs = map2 r_mul us vs"

definition asanyarray :: "float64 list \<Rightarrow> float64 list" where
  "asanyarray vs = map rnd64 vs"

text \<open>
  \<open>hillas_parameters_2\<close> with every operation rounded: the assignments are those of
  \<open>hillas_2_body\<close>, and \<open>np.asanyarray(..., dtype=np.float64)\<close> rounds the three inputs.
\<close>

definition hillas_2_body_ieee ::
  "float64 list \<Rightarrow> float64 list \<Rightarrow> float64 list \<Rightarrow> hillas_2_locals" where
  "hillas_2_body_ieee pix_x pix_y image_arr =
     (let size_h = r_sum image_arr;
          momdata = map (\<lambda>row. r_arr_mul row image_arr)
                      [pix_x, pix_y, r_arr_mul pix_x pix_x, r_arr_mul pix_y pix_y,
                       r_arr_mul pix_x pix_y];
          moms = map (\<lambda>row. r_div (r_sum row) size_h) momdata;
          vx2 = r_sub (moms ! 2) (r_pow2 (moms ! 0));
          vy2 = r_sub (moms ! 3) (r_pow2 (moms ! 1));
          vxy = r_sub (moms ! 4) (r_mul (moms ! 0) (moms ! 1));
          dd = r_sub vy2 vx2;
          zz = r_sqrt (r_add (r_pow2 dd) (r_mul (Fin 4) (r_pow2 vxy)));
          uu = r_add (Fin 1) (r_div dd zz);
          vv = r_sub (Fin 2) uu;
          miss = r_sqrt (r_sub (r_div (r_add (r_mul uu (r_pow2 (moms ! 0)))
                                             (r_mul vv (r_pow2 (moms ! 1)))) (Fin 2))
                               (r_div (r_mul (r_mul (r_mul (moms ! 0) (moms ! 1)) (Fin 2)) vxy) zz));
          width = r_sqrt (r_sub (r_add vx2 vy2) zz);
          length_h = r_sqrt (r_add (r_add vx2 vy2) zz);
          distance = r_hypot (moms ! 0) (moms ! 1);
          azwidth = r_sqrt (r_sub (r_add (moms ! 2) (moms ! 3)) zz);
          tanpsi_numer = r_add (r_mul (r_add dd zz) (moms ! 1)) (r_mul (r_mul (Fin 2) vxy) (moms ! 0));
          tanpsi_denom = r_sub (r_mul (r_mul (Fin 2) vxy) (moms ! 1)) (r_mul (r_sub dd zz) (moms ! 0));
          psi = r_add (r_div (round_double pi) (Fin 2)) (r_arctan2 tanpsi_numer tanpsi_denom);
          alpha = r_arcsin (r_div miss distance);
          phi = r_arctan2 (moms ! 1) (moms ! 0)
      in \<lparr>l_size = size_h, l_moms = moms, l_vx2 = vx2, l_vy2 = vy2, l_vxy = vxy,
          l_dd = dd, l_zz = zz, l_uu = uu, l_vv = vv, l_miss = miss, l_width = width,
          l_length = length_h, l_distance = distance, l_azwidth = azwidth,
          l_tanpsi_numer = tanpsi_numer, l_tanpsi_denom = tanpsi_denom,
          l_psi = psi, l_alpha = alpha, l_phi = phi\<rparr>)"

definition hillas_parameters_2_ieee ::
  "float64 list \<Rightarrow> float64 list \<Rightarrow> float64 list \<Rightarrow> error + hillas_p2" where
  "hillas_parameters_2_ieee pix_x pix_y image_arr =
     (let pix_x = asanyarray pix_x;
          pix_y = asanyarray pix_y;
          image_arr = asanyarray image_arr
      in if length pix_x \<noteq> length image_arr then Inl AssertionError
         else if length pix_y \<noteq> length image_arr then Inl AssertionError
         else
          (let l = hillas_2_body_ieee pix_x pix_y image_arr
           in Inr \<lparr>h_size = l_size l, h_cx = l_moms l ! 0, h_cy = l_moms l ! 1,
                   h_length = l_length l, h_width = l_width l, h_distance = l_distance l,
                   h_azwidth = l_azwidth l, h_psi = l_psi l, h_phi = l_phi l,
                   h_alpha = l_alpha l\<rparr>))"

text \<open>
  Weighted sums over a finite image, \<open>\<Sum> s\<^sub>i * f x\<^sub>i y\<^sub>i\<close>: the moment sums of both
  functions on finite numbers.
\<close>

definition msum :: "(real \<Rightarrow> real \<Rightarrow> real) \<Rightarrow> real list \<Rightarrow> real list \<Rightarrow> real list \<Rightarrow> real" where
  "msum f xs ys ss = (\<Sum>(x, y, s) \<leftarrow> zip xs (zip ys ss). s * f x y)"

section \<open>Notions used to state the properties\<close>

text \<open>Transpose, product and identity of 3x3 matrices given as lists of rows.\<close>

definition mat_transpose :: "float64 list list \<Rightarrow> float64 list list" where
  "mat_transpose m = map (\<lambda>j. map (\<lambda>i. m ! i ! j) [0, 1, 2]) [0, 1, 2]"

definition mat_mul :: "float64 list list \<Rightarrow> float64 list list \<Rightarrow> float64 list list" where
  "mat_mul m n =
     map (\<lambda>i. map (\<lambda>j. m ! i ! 0 * n ! 0 ! j + m ! i ! 1 * n ! 1 ! j + m ! i ! 2 * n ! 2 ! j)
                  [0, 1, 2]) [0, 1, 2]"

definition identity33 :: "float64 list list" where
  "identity33 = [[Fin 1, Fin 0, Fin 0], [Fin 0, Fin 1, Fin 0], [Fin 0, Fin 0, Fin 1]]"

text \<open>The comparison \<open>u <= v\<close> of two \<open>float64\<close> values: false when either is NaN.\<close>

fun fle :: "float64 \<Rightarrow> float64 \<Rightarrow> bool" where
  "fle (Fin a) (Fin b) = (a \<le> b)"
| "fle NaN v = False"
| "fle u NaN = False"
| "fle NInf v = True"
| "fle u PInf = True"
| "fle PInf v = False"
| "fle u NInf = False"

text \<open>Point sets and arrays all of whose entries are finite numbers.\<close>

definition fin_points2 :: "(real \<times> real) list \<Rightarrow> (float64 \<times> float64) list" where
  "fin_points2 pts = map (\<lambda>(u, v). (Fin u, Fin v)) pts"

definition fin_points3 :: "(real \<times> real \<times> real) list \<Rightarrow> (float64 \<times> float64 \<times> float64) list" where
  "fin_points3 pts = map (\<lambda>(u, v, w). (Fin u, Fin v, Fin w)) pts"

section \<open>Arithmetic on finite values\<close>

lemma minus_Fin [simp]: "Fin a - Fin b = Fin (a - b)"
  by (simp add: minus_float64_def)

lemma trans_matrix_Fin:
  "get_shower_trans_matrix (Fin azimuth) (Fin altitude) =
     [[Fin (sin altitude * cos azimuth), Fin (- sin altitude * sin azimuth), Fin (- cos altitude)],
      [Fin (sin azimuth), Fin (cos azimuth), Fin 0],
      [Fin (cos altitude * cos azimuth), Fin (- cos altitude * sin azimuth), Fin (sin altitude)]]"
  by (simp add: get_shower_trans_matrix_def set_entry_def zeros33_def Let_def)

lemma sin_cos_sq: "sin t * sin t + cos t * cos t = (1::real)"
  using sin_cos_squared_add[of t] by (simp add: power2_eq_square)

section \<open>Ground and tilted frames\<close>

text \<open>
  C6. For every (finite) azimuth and altitude the matrix of \<open>get_shower_trans_matrix\<close>
  is orthonormal in real arithmetic: its transpose times itself is the identity, and so
  is the product in the other order, so that the transpose is its inverse.
\<close>

theorem C6_trans_matrix_orthonormal:
  "mat_mul (mat_transpose (get_shower_trans_matrix (Fin azimuth) (Fin altitude)))
           (get_shower_trans_matrix (Fin azimuth) (Fin altitude)) = identity33
   \<and> mat_mul (get_shower_trans_matrix (Fin azimuth) (Fin altitude))
             (mat_transpose (get_shower_trans_matrix (Fin azimuth) (Fin altitude))) = identity33"
proof -
  define sa ca cz sz
    where "sa = sin azimuth" and "ca = cos azimuth" and "cz = sin altitude" and "sz = cos altitude"
  have a: "ca * ca = 1 - sa * sa"
    using sin_cos_sq[of azimuth] by (simp add: sa_def ca_def)
  have z: "sz * sz = 1 - cz * cz"
    using sin_cos_sq[of altitude] by (simp add: sz_def cz_def)
  have l: "mat_mul (mat_transpose (get_shower_trans_matrix (Fin azimuth) (Fin altitude)))
           (get_shower_trans_matrix (Fin azimuth) (Fin altitude)) = identity33"
    unfolding trans_matrix_Fin sa_def[symmetric] ca_def[symmetric] sz_def[symmetric] cz_def[symmetric]
    by (simp add: mat_mul_def mat_transpose_def identity33_def; intro conjI; use a z in algebra)
  have r: "mat_mul (get_shower_trans_matrix (Fin azimuth) (Fin altitude))
             (mat_transpose (get_shower_trans_matrix (Fin azimuth) (Fin altitude))) = identity33"
    unfolding trans_matrix_Fin sa_def[symmetric] ca_def[symmetric] sz_def[symmetric] cz_def[symmetric]
    by (simp add: mat_mul_def mat_transpose_def identity33_def; intro conjI; use a z in algebra)
  from l r show ?thesis ..
qed

text \<open>
  The two transformations on a single point, with the entries of the matrix written out.
\<close>

lemma tilted_then_ground_then_tilted:
  assumes "t_pointing_direction t = Some \<lparr>alt = Fin al, az = Fin a\<rparr>"
    and "t_points t = fin_points2 pts"
  shows "\<exists>g'. tilted_to_ground t g = Inr g' \<and> ground_to_tilted g' t = Inr t"
proof -
  define sa ca cz sz where "sa = sin a" and "ca = cos a" and "cz = sin al" and "sz = cos al"
  have a: "sa * sa + ca * ca = 1"
    using sin_cos_sq[of a] by (simp add: sa_def ca_def)
  have z: "cz * cz + sz * sz = 1"
    using sin_cos_sq[of al] by (simp add: sz_def cz_def)
  define F where "F = (\<lambda>(x_grd, y_grd, z_grd).
              (Fin (cz * ca) * x_grd + Fin (- cz * sa) * y_grd + Fin (- sz) * z_grd,
               Fin sa * x_grd + Fin ca * y_grd + Fin 0 * z_grd))"
  define G where "G = (\<lambda>(x_tilt, y_tilt).
              (Fin (cz * ca) * x_tilt + Fin sa * y_tilt,
               Fin (- cz * sa) * x_tilt + Fin ca * y_tilt,
               Fin (- sz) * x_tilt + Fin 0 * y_tilt))"
  have pt: "F (G (Fin u, Fin v)) = (Fin u, Fin v)" for u v
    unfolding F_def G_def by (auto; use a z in algebra)
  have m: "map F (map G (fin_points2 pts)) = fin_points2 pts"
    unfolding fin_points2_def by (induction pts) (auto simp: pt)
  show ?thesis
    using assms m
    by (simp add: tilted_to_ground_def ground_to_tilted_def trans_matrix_Fin Let_def
        sa_def ca_def cz_def sz_def F_def G_def)
qed

lemma ground_then_tilted_then_ground:
  assumes "t_pointing_direction t = Some \<lparr>alt = Fin al, az = Fin a\<rparr>"
    and "g_points g = fin_points3 pts"
    and "\<forall>(x, y, z) \<in> set (g_points g).
           get_shower_trans_matrix (Fin a) (Fin al) ! 2 ! 0 * x
         + get_shower_trans_matrix (Fin a) (Fin al) ! 2 ! 1 * y
         + get_shower_trans_matrix (Fin a) (Fin al) ! 2 ! 2 * z = Fin 0"
  shows "\<exists>t'. ground_to_tilted g t = Inr t' \<and> tilted_to_ground t' g = Inr g"
proof -
  define sa ca cz sz where "sa = sin a" and "ca = cos a" and "cz = sin al" and "sz = cos al"
  have a: "sa * sa + ca * ca = 1"
    using sin_cos_sq[of a] by (simp add: sa_def ca_def)
  have z: "cz * cz + sz * sz = 1"
    using sin_cos_sq[of al] by (simp add: sz_def cz_def)
  define F where "F = (\<lambda>(x_grd, y_grd, z_grd).
              (Fin (cz * ca) * x_grd + Fin (- cz * sa) * y_grd + Fin (- sz) * z_grd,
               Fin sa * x_grd + Fin ca * y_grd + Fin 0 * z_grd))"
  define G where "G = (\<lambda>(x_tilt, y_tilt).
              (Fin (cz * ca) * x_tilt + Fin sa * y_tilt,
               Fin (- cz * sa) * x_tilt + Fin ca * y_tilt,
               Fin (- sz) * x_tilt + Fin 0 * y_tilt))"
  have pt: "G (F (Fin x, Fin y, Fin w)) = (Fin x, Fin y, Fin w)"
    if "sz * ca * x + - sz * sa * y + cz * w = 0" for x y w
    unfolding F_def G_def by (auto; use a z that in algebra)
  have pl: "\<forall>(x, y, w) \<in> set pts. sz * ca * x + - sz * sa * y + cz * w = 0"
    using assms(3) unfolding assms(2) trans_matrix_Fin fin_points3_def
    by (auto simp: sa_def ca_def cz_def sz_def)
  have m: "map G (map F (fin_points3 pts)) = fin_points3 pts"
    using pl unfolding fin_points3_def by (induction pts) (auto simp: pt)
  show ?thesis
    using assms(1,2) m
    by (simp add: tilted_to_ground_def ground_to_tilted_def trans_matrix_Fin Let_def
        sa_def ca_def cz_def sz_def F_def G_def)
qed

text \<open>
  C7. Round trip, in real arithmetic, for a pointing direction \<open>(al, a)\<close> carried by the
  tilted frame \<open>t\<close>. A tilted point set embedded with \<open>tilted_to_ground\<close> and transformed
  back with \<open>ground_to_tilted\<close> is recovered. A ground point set that lies in the tilted
  plane (its component along the pointing axis, the third row of the matrix, is zero)
  is returned unchanged by \<open>ground_to_tilted\<close> followed by \<open>tilted_to_ground\<close>.
\<close>

theorem C7_round_trip:
  assumes "t_pointing_direction t = Some \<lparr>alt = Fin al, az = Fin a\<rparr>"
  shows "(t_points t = fin_points2 pts \<longrightarrow>
            (\<exists>g'. tilted_to_ground t g = Inr g' \<and> ground_to_tilted g' t = Inr t))
       \<and> (g_points g = fin_points3 pts3
            \<and> (\<forall>(x, y, z) \<in> set (g_points g).
                   get_shower_trans_matrix (Fin a) (Fin al) ! 2 ! 0 * x
                 + get_shower_trans_matrix (Fin a) (Fin al) ! 2 ! 1 * y
                 + get_shower_trans_matrix (Fin a) (Fin al) ! 2 ! 2 * z = Fin 0) \<longrightarrow>
            (\<exists>t'. ground_to_tilted g t = Inr t' \<and> tilted_to_ground t' g = Inr g))"
  using tilted_then_ground_then_tilted[OF assms] ground_then_tilted_then_ground[OF assms]
  by blast

theorem C7_round_trip_witness:
  "(\<exists>g'. tilted_to_ground
           \<lparr>t_points = [(Fin 1, Fin 2)],
            t_pointing_direction = Some \<lparr>alt = Fin (pi / 2), az = Fin 0\<rparr>\<rparr>
           \<lparr>g_points = [(Fin 1, Fin 2, Fin 0)], g_pointing_direction = None\<rparr> = Inr g'
        \<and> ground_to_tilted g'
           \<lparr>t_points = [(Fin 1, Fin 2)],
            t_pointing_direction = Some \<lparr>alt = Fin (pi / 2), az = Fin 0\<rparr>\<rparr>
          = Inr \<lparr>t_points = [(Fin 1, Fin 2)],
                 t_pointing_direction = Some \<lparr>alt = Fin (pi / 2), az = Fin 0\<rparr>\<rparr>)
   \<and> (\<exists>t'. ground_to_tilted
           \<lparr>g_points = [(Fin 1, Fin 2, Fin 0)], g_pointing_direction = None\<rparr>
           \<lparr>t_points = [(Fin 1, Fin 2)],
            t_pointing_direction = Some \<lparr>alt = Fin (pi / 2), az = Fin 0\<rparr>\<rparr> = Inr t'
        \<and> tilted_to_ground t'
           \<lparr>g_points = [(Fin 1, Fin 2, Fin 0)], g_pointing_direction = None\<rparr>
          = Inr \<lparr>g_points = [(Fin 1, Fin 2, Fin 0)], g_pointing_direction = None\<rparr>)"
  using C7_round_trip[of "\<lparr>t_points = [(Fin 1, Fin 2)],
            t_pointing_direction = Some \<lparr>alt = Fin (pi / 2), az = Fin 0\<rparr>\<rparr>" "pi / 2" 0
          "[(1, 2)]" "\<lparr>g_points = [(Fin 1, Fin 2, Fin 0)], g_pointing_direction = None\<rparr>"
          "[(1, 2, 0)]"]
  by (simp add: fin_points2_def fin_points3_def trans_matrix_Fin)

text \<open>
  C2 as stated fails. The denominator of \<open>project_to_ground\<close> is \<open>trans[2][2] = cos_z\<close>,
  which the matrix builder sets to \<open>sin(altitude)\<close>. For a vertical pointing
  (altitude \<open>\<pi>/2\<close>) it is \<open>1\<close> and the projection is well defined; for a horizontal
  pointing (altitude \<open>0\<close>), which is not vertical, it is \<open>0\<close> and the projection of the
  tilted point \<open>(1, 1)\<close> comes out as \<open>(inf, nan, 0)\<close>.
\<close>

theorem C2_counterexample:
  "get_shower_trans_matrix (Fin 0) (Fin (pi / 2)) ! 2 ! 2 = Fin 1
   \<and> project_to_ground \<lparr>t_points = [(Fin 1, Fin 1)],
         t_pointing_direction = Some \<lparr>alt = Fin (pi / 2), az = Fin 0\<rparr>\<rparr>
       = Inr \<lparr>g_points = [(Fin 1, Fin 1, Fin 0)], g_pointing_direction = None\<rparr>
   \<and> get_shower_trans_matrix (Fin 0) (Fin 0) ! 2 ! 2 = Fin 0
   \<and> project_to_ground \<lparr>t_points = [(Fin 1, Fin 1)],
         t_pointing_direction = Some \<lparr>alt = Fin 0, az = Fin 0\<rparr>\<rparr>
       = Inr \<lparr>g_points = [(PInf, NaN, Fin 0)], g_pointing_direction = None\<rparr>"
  by (simp add: trans_matrix_Fin project_to_ground_def tilted_to_ground_def
      default_GroundFrame_def Let_def minus_float64_def)

lemma trans_matrix_2_2: "get_shower_trans_matrix azimuth altitude ! 2 ! 2 = np_sin altitude"
  by (simp add: get_shower_trans_matrix_def set_entry_def zeros33_def Let_def)

lemma sub_div_zero_not_finite: "\<not> isfinite (u - v / Fin 0)"
  by (cases u; cases v) (simp_all add: minus_float64_def)

text \<open>
  C2, amended. The denominator \<open>trans[2][2]\<close> is \<open>cos_z\<close>, the sine of the altitude; for a
  finite altitude it is zero exactly when \<open>sin(altitude)\<close> is zero. \<open>project_to_ground\<close>
  returns a ground point set of the size of the tilted one, and whenever the denominator
  is zero every projected \<open>x\<close> and \<open>y\<close> is infinite or NaN: the division by zero is not
  raised. This holds for all tilted point sets and pointing directions, finite or not.
\<close>

theorem C2_denominator:
  assumes "t_pointing_direction t = Some pd"
  shows "get_shower_trans_matrix (az pd) (alt pd) ! 2 ! 2 = np_sin (alt pd)
       \<and> (\<forall>al. alt pd = Fin al \<longrightarrow>
             (get_shower_trans_matrix (az pd) (alt pd) ! 2 ! 2 = Fin 0 \<longleftrightarrow> sin al = 0))
       \<and> (\<exists>g. project_to_ground t = Inr g
             \<and> length (g_points g) = length (t_points t)
             \<and> (get_shower_trans_matrix (az pd) (alt pd) ! 2 ! 2 = Fin 0 \<longrightarrow>
                  (\<forall>(x, y, z) \<in> set (g_points g). \<not> isfinite x \<and> \<not> isfinite y)))"
proof -
  have 1: "get_shower_trans_matrix (az pd) (alt pd) ! 2 ! 2 = np_sin (alt pd)"
    by (rule trans_matrix_2_2)
  have 2: "\<forall>al. alt pd = Fin al \<longrightarrow>
             (get_shower_trans_matrix (az pd) (alt pd) ! 2 ! 2 = Fin 0 \<longleftrightarrow> sin al = 0)"
    unfolding 1 by simp
  have 3: "\<exists>g. project_to_ground t = Inr g
             \<and> length (g_points g) = length (t_points t)
             \<and> (get_shower_trans_matrix (az pd) (alt pd) ! 2 ! 2 = Fin 0 \<longrightarrow>
                  (\<forall>(x, y, z) \<in> set (g_points g). \<not> isfinite x \<and> \<not> isfinite y))"
    using assms
    by (auto simp add: project_to_ground_def tilted_to_ground_def default_GroundFrame_def Let_def
        sub_div_zero_not_finite)
  from 1 2 3 show ?thesis by blast
qed

theorem C2_denominator_witness:
  "get_shower_trans_matrix (Fin 0) (Fin 0) ! 2 ! 2 = Fin 0
   \<and> (\<exists>g. project_to_ground
             \<lparr>t_points = [(Fin 1, Fin 1)],
              t_pointing_direction = Some \<lparr>alt = Fin 0, az = Fin 0\<rparr>\<rparr> = Inr g
          \<and> length (g_points g) = 1
          \<and> (\<forall>(x, y, z) \<in> set (g_points g). \<not> isfinite x \<and> \<not> isfinite y))"
  using C2_denominator[of "\<lparr>t_points = [(Fin 1, Fin 1)],
              t_pointing_direction = Some \<lparr>alt = Fin 0, az = Fin 0\<rparr>\<rparr>" "\<lparr>alt = Fin 0, az = Fin 0\<rparr>"]
  by auto

section \<open>Hillas parameters\<close>

subsection \<open>The assignments of the two functions, one by one\<close>

lemma hillas_2_body_steps:
  fixes pix_x pix_y image_arr
  defines "l \<equiv> hillas_2_body pix_x pix_y image_arr"
  shows "l_size l = np_sum image_arr"
    and "l_moms l = map (\<lambda>row. np_sum (arr_mul row image_arr) / np_sum image_arr)
                      [pix_x, pix_y, arr_mul pix_x pix_x, arr_mul pix_y pix_y, arr_mul pix_x pix_y]"
    and "l_vx2 l = l_moms l ! 2 - pow2 (l_moms l ! 0)"
    and "l_vy2 l = l_moms l ! 3 - pow2 (l_moms l ! 1)"
    and "l_vxy l = l_moms l ! 4 - l_moms l ! 0 * l_moms l ! 1"
    and "l_dd l = l_vy2 l - l_vx2 l"
    and "l_zz l = np_sqrt (pow2 (l_dd l) + Fin 4 * pow2 (l_vxy l))"
    and "l_uu l = Fin 1 + l_dd l / l_zz l"
    and "l_vv l = Fin 2 - l_uu l"
    and "l_miss l = np_sqrt ((l_uu l * pow2 (l_moms l ! 0) + l_vv l * pow2 (l_moms l ! 1)) / Fin 2
                          - l_moms l ! 0 * l_moms l ! 1 * Fin 2 * l_vxy l / l_zz l)"
    and "l_width l = np_sqrt (l_vx2 l + l_vy2 l - l_zz l)"
    and "l_length l = np_sqrt (l_vx2 l + l_vy2 l + l_zz l)"
    and "l_distance l = np_hypot (l_moms l ! 0) (l_moms l ! 1)"
    and "l_azwidth l = np_sqrt (l_moms l ! 2 + l_moms l ! 3 - l_zz l)"
    and "l_tanpsi_numer l = (l_dd l + l_zz l) * l_moms l ! 1 + Fin 2 * l_vxy l * l_moms l ! 0"
    and "l_tanpsi_denom l = (Fin 2 * l_vxy l * l_moms l ! 1) - (l_dd l - l_zz l) * l_moms l ! 0"
    and "l_psi l = Fin pi / Fin 2 + np_arctan2 (l_tanpsi_numer l) (l_tanpsi_denom l)"
    and "l_alpha l = np_arcsin (l_miss l / l_distance l)"
    and "l_phi l = np_arctan2 (l_moms l ! 1) (l_moms l ! 0)"
  unfolding l_def hillas_2_body_def Let_def
  by (simp_all only: hillas_2_locals.select_convs list.map comp_def)

lemma hillas_body_steps:
  fixes x y s
  defines "v \<equiv> hillas_body x y s"
  shows "v_s v = np_sum s"
    and "v_m_x v = np_sum (arr_mul s x) / v_s v"
    and "v_m_y v = np_sum (arr_mul s y) / v_s v"
    and "v_m_xx v = np_sum (arr_mul (arr_mul s x) x) / v_s v"
    and "v_m_yy v = np_sum (arr_mul (arr_mul s y) y) / v_s v"
    and "v_m_xy v = np_sum (arr_mul (arr_mul s x) y) / v_s v"
    and "v_S_xx v = v_m_xx v - v_m_x v * v_m_x v"
    and "v_S_yy v = v_m_yy v - v_m_y v * v_m_y v"
    and "v_S_xy v = v_m_xy v - v_m_x v * v_m_y v"
    and "v_d v = v_S_yy v - v_S_xx v"
    and "v_temp v = v_d v * v_d v + Fin 4 * v_S_xy v * v_S_xy v"
    and "v_a v = (v_d v + np_sqrt (v_temp v)) / (Fin 2 * v_S_xy v)"
    and "v_b v = v_m_y v - v_a v * v_m_x v"
    and "v_width_2 v = (v_S_yy v + v_a v * v_a v * v_S_xx v - Fin 2 * v_a v * v_S_xy v) / (Fin 1 + v_a v * v_a v)"
    and "v_width v = np_sqrt (v_width_2 v)"
    and "v_length_2 v = (v_S_xx v + v_a v * v_a v * v_S_yy v + Fin 2 * v_a v * v_S_xy v) / (Fin 1 + v_a v * v_a v)"
    and "v_length v = np_sqrt (v_length_2 v)"
    and "v_miss v = \<bar>v_b v / (Fin 1 + v_a v * v_a v)\<bar>"
    and "v_r v = np_sqrt (v_m_x v * v_m_x v + v_m_y v * v_m_y v)"
    and "v_sin_theta v = v_m_y v / v_r v"
    and "v_cos_theta v = v_m_x v / v_r v"
    and "v_q v = arr_add (map (\<lambda>x_i. (v_m_x v - x_i) * v_sin_theta v) x)
                      (map (\<lambda>y_i. (y_i - v_m_y v) * v_cos_theta v) y)"
    and "v_m_q v = np_sum (arr_mul s (v_q v)) / v_s v"
    and "v_m_qq v = np_sum (arr_mul (arr_mul s (v_q v)) (v_q v)) / v_s v"
    and "v_azwidth_2 v = v_m_qq v - v_m_q v * v_m_q v"
    and "v_azwidth v = np_sqrt (v_azwidth_2 v)"
  unfolding v_def hillas_body_def Let_def
  by (simp_all only: hillas_locals.select_convs)

subsection \<open>Moment sums of a finite image\<close>

lemma msum_Nil [simp]: "msum f [] [] [] = 0"
  by (simp add: msum_def)

lemma msum_Cons [simp]: "msum f (x # xs) (y # ys) (s # ss) = s * f x y + msum f xs ys ss"
  by (simp add: msum_def)


lemma sum_image:
  assumes "length xs = length ys" "length ys = length ss"
  shows "np_sum (map Fin ss) = Fin (msum (\<lambda>x y. 1) xs ys ss)"
  using assms by (induction xs ys ss rule: list_induct3) simp_all

lemma sum_sx:
  assumes "length xs = length ys" "length ys = length ss"
  shows "np_sum (arr_mul (map Fin ss) (map Fin xs)) = Fin (msum (\<lambda>x y. x) xs ys ss)"
    and "np_sum (arr_mul (map Fin ss) (map Fin ys)) = Fin (msum (\<lambda>x y. y) xs ys ss)"
    and "np_sum (arr_mul (arr_mul (map Fin ss) (map Fin xs)) (map Fin xs)) = Fin (msum (\<lambda>x y. x * x) xs ys ss)"
    and "np_sum (arr_mul (arr_mul (map Fin ss) (map Fin ys)) (map Fin ys)) = Fin (msum (\<lambda>x y. y * y) xs ys ss)"
    and "np_sum (arr_mul (arr_mul (map Fin ss) (map Fin xs)) (map Fin ys)) = Fin (msum (\<lambda>x y. x * y) xs ys ss)"
  using assms by (induction xs ys ss rule: list_induct3) (simp_all add: arr_mul_def)

lemma sum_xs:
  assumes "length xs = length ys" "length ys = length ss"
  shows "np_sum (arr_mul (map Fin xs) (map Fin ss)) = Fin (msum (\<lambda>x y. x) xs ys ss)"
    and "np_sum (arr_mul (map Fin ys) (map Fin ss)) = Fin (msum (\<lambda>x y. y) xs ys ss)"
    and "np_sum (arr_mul (arr_mul (map Fin xs) (map Fin xs)) (map Fin ss)) = Fin (msum (\<lambda>x y. x * x) xs ys ss)"
    and "np_sum (arr_mul (arr_mul (map Fin ys) (map Fin ys)) (map Fin ss)) = Fin (msum (\<lambda>x y. y * y) xs ys ss)"
    and "np_sum (arr_mul (arr_mul (map Fin xs) (map Fin ys)) (map Fin ss)) = Fin (msum (\<lambda>x y. x * y) xs ys ss)"
  using assms by (induction xs ys ss rule: list_induct3) (simp_all add: arr_mul_def mult_ac)

lemma msum_one:
  "length xs = length ys \<Longrightarrow> length ys = length ss \<Longrightarrow> msum (\<lambda>x y. 1) xs ys ss = sum_list ss"
  by (induction xs ys ss rule: list_induct3) simp_all

lemma msum_quadratic:
  assumes "length xs = length ys" "length ys = length ss"
  shows "msum (\<lambda>x y. (al * x + be * y + ga) * (al * x + be * y + ga)) xs ys ss
       = al * al * msum (\<lambda>x y. x * x) xs ys ss + be * be * msum (\<lambda>x y. y * y) xs ys ss
       + ga * ga * msum (\<lambda>x y. 1) xs ys ss + 2 * al * be * msum (\<lambda>x y. x * y) xs ys ss
       + 2 * al * ga * msum (\<lambda>x y. x) xs ys ss + 2 * be * ga * msum (\<lambda>x y. y) xs ys ss"
  using assms by (induction xs ys ss rule: list_induct3) (simp_all add: algebra_simps)

lemma msum_nonneg:
  assumes "length xs = length ys" "length ys = length ss" "\<forall>s \<in> set ss. 0 \<le> s" "\<And>x y. 0 \<le> f x y"
  shows "0 \<le> msum f xs ys ss"
  using assms(1,2,3) by (induction xs ys ss rule: list_induct3) (simp_all add: assms(4))

lemma psd_form:
  fixes A B C :: real
  assumes q: "\<And>al be. 0 \<le> al * al * A + 2 * al * be * B + be * be * C"
  shows "0 \<le> A" "0 \<le> C" "B * B \<le> A * C"
proof -
  show A: "0 \<le> A" using q[of 1 0] by simp
  show C: "0 \<le> C" using q[of 0 1] by simp
  have 1: "0 \<le> A * (A * C - B * B)" using q[of "- B" A] by (simp add: algebra_simps)
  have 2: "0 \<le> C * (A * C - B * B)" using q[of C "- B"] by (simp add: algebra_simps)
  show "B * B \<le> A * C"
  proof (cases "0 < A \<or> 0 < C")
    case True
    then show ?thesis using 1 2 by (auto simp: zero_le_mult_iff)
  next
    case False
    then have "A = 0" "C = 0" using A C by auto
    then have "0 \<le> - 2 * B * B" using q[of 1 "- B"] by simp
    then have "B * B \<le> 0" by simp
    with zero_le_square[of B] have "B * B = 0" by linarith
    then have "B = 0" by simp
    then show ?thesis using \<open>A = 0\<close> by simp
  qed
qed

lemma central_moments_psd:
  assumes len: "length xs = length ys" "length ys = length ss"
    and nn: "\<forall>s \<in> set ss. 0 \<le> s"
    and pos: "0 < msum (\<lambda>x y. 1) xs ys ss"
  defines "M1 \<equiv> msum (\<lambda>x y. 1) xs ys ss"
  defines "mx \<equiv> msum (\<lambda>x y. x) xs ys ss / M1"
  defines "my \<equiv> msum (\<lambda>x y. y) xs ys ss / M1"
  defines "vx2 \<equiv> msum (\<lambda>x y. x * x) xs ys ss / M1 - mx * mx"
  defines "vy2 \<equiv> msum (\<lambda>x y. y * y) xs ys ss / M1 - my * my"
  defines "vxy \<equiv> msum (\<lambda>x y. x * y) xs ys ss / M1 - mx * my"
  shows "0 \<le> vx2" "0 \<le> vy2" "vxy * vxy \<le> vx2 * vy2"
proof -
  have M1: "0 < M1" using pos by (simp add: M1_def)
  have q: "0 \<le> al * al * vx2 + 2 * al * be * vxy + be * be * vy2" for al be
  proof -
    define ga where "ga = - (al * mx + be * my)"
    have "0 \<le> msum (\<lambda>x y. (al * x + be * y + ga) * (al * x + be * y + ga)) xs ys ss"
      by (rule msum_nonneg[OF len nn]) simp
    also have "\<dots> = M1 * (al * al * vx2 + 2 * al * be * vxy + be * be * vy2)"
      unfolding msum_quadratic[OF len] using M1
      unfolding vx2_def vy2_def vxy_def mx_def my_def ga_def M1_def[symmetric]
      by (simp add: field_simps)
    finally show ?thesis using M1 by (simp add: zero_le_mult_iff)
  qed
  show "0 \<le> vx2" "0 \<le> vy2" "vxy * vxy \<le> vx2 * vy2"
    using psd_form[of vx2 vxy vy2, OF q] by auto
qed

lemma width_radicand_nonneg:
  fixes vx2 vy2 vxy :: real
  assumes "0 \<le> vx2" "0 \<le> vy2" "vxy * vxy \<le> vx2 * vy2"
  shows "sqrt ((vy2 - vx2) * (vy2 - vx2) + 4 * (vxy * vxy)) \<le> vx2 + vy2"
proof (rule real_le_lsqrt)
  show "0 \<le> vx2 + vy2" using assms by simp
  show "(vy2 - vx2) * (vy2 - vx2) + 4 * (vxy * vxy) \<le> (vx2 + vy2)\<^sup>2"
    using assms(3) by (simp add: power2_eq_square algebra_simps)
qed

lemma sq_sum_not_neg: "\<not> a * a + 4 * (b * b) < (0::real)"
  by (simp add: not_less)

text \<open>The moments of \<open>hillas_parameters_2\<close> on a finite image with non-zero total.\<close>

lemma hillas_2_moms_Fin:
  assumes len: "length xs = length ys" "length ys = length ss"
    and M1: "msum (\<lambda>x y. 1) xs ys ss \<noteq> 0"
  defines "l \<equiv> hillas_2_body (map Fin xs) (map Fin ys) (map Fin ss)"
  defines "M1 \<equiv> msum (\<lambda>x y. 1) xs ys ss"
  shows "l_size l = Fin M1"
    and "l_moms l = [Fin (msum (\<lambda>x y. x) xs ys ss / M1), Fin (msum (\<lambda>x y. y) xs ys ss / M1),
                     Fin (msum (\<lambda>x y. x * x) xs ys ss / M1), Fin (msum (\<lambda>x y. y * y) xs ys ss / M1),
                     Fin (msum (\<lambda>x y. x * y) xs ys ss / M1)]"
  using M1 unfolding l_def M1_def
  by (simp_all add: hillas_2_body_steps(1,2) sum_xs[OF len] sum_image[OF len])

lemma hillas_2_vars_Fin:
  assumes len: "length xs = length ys" "length ys = length ss"
    and M1: "msum (\<lambda>x y. 1) xs ys ss \<noteq> 0"
  defines "l \<equiv> hillas_2_body (map Fin xs) (map Fin ys) (map Fin ss)"
  defines "M1 \<equiv> msum (\<lambda>x y. 1) xs ys ss"
  defines "mx \<equiv> msum (\<lambda>x y. x) xs ys ss / M1"
  defines "my \<equiv> msum (\<lambda>x y. y) xs ys ss / M1"
  defines "vx2 \<equiv> msum (\<lambda>x y. x * x) xs ys ss / M1 - mx * mx"
  defines "vy2 \<equiv> msum (\<lambda>x y. y * y) xs ys ss / M1 - my * my"
  defines "vxy \<equiv> msum (\<lambda>x y. x * y) xs ys ss / M1 - mx * my"
  shows "l_vx2 l = Fin vx2" and "l_vy2 l = Fin vy2" and "l_vxy l = Fin vxy"
    and "l_zz l = Fin (sqrt ((vy2 - vx2) * (vy2 - vx2) + 4 * (vxy * vxy)))"
proof -
  note m = hillas_2_moms_Fin(2)[OF len M1, folded l_def M1_def]
  show 1: "l_vx2 l = Fin vx2"
    unfolding l_def hillas_2_body_steps(3) unfolding l_def[symmetric] m
    by (simp add: pow2_def vx2_def mx_def)
  show 2: "l_vy2 l = Fin vy2"
    unfolding l_def hillas_2_body_steps(4) unfolding l_def[symmetric] m
    by (simp add: pow2_def vy2_def my_def)
  show 3: "l_vxy l = Fin vxy"
    unfolding l_def hillas_2_body_steps(5) unfolding l_def[symmetric] m
    by (simp add: pow2_def vxy_def mx_def my_def)
  have 4: "l_dd l = Fin (vy2 - vx2)"
    unfolding l_def hillas_2_body_steps(6) unfolding l_def[symmetric] 1 2 by simp
  show "l_zz l = Fin (sqrt ((vy2 - vx2) * (vy2 - vx2) + 4 * (vxy * vxy)))"
    unfolding l_def hillas_2_body_steps(7) unfolding l_def[symmetric] 3 4
    by (simp add: pow2_def sq_sum_not_neg)
qed

subsection \<open>Properties of the Hillas parameters\<close>

text \<open>
  In exact arithmetic: for equal-length arrays of finite numbers with all intensities
  non-negative and a positive total, the radicands of \<open>hillas_parameters_2\<close> are not
  negative (the weighted covariance is positive semi-definite), so that
  \<open>0 \<le> width \<le> length\<close>, and \<open>size\<close> is the sum of the intensities.
\<close>

lemma hillas_2_ordering_exact:
  assumes "length xs = length ss" and "length ys = length ss"
    and "\<forall>s \<in> set ss. 0 \<le> s" and "0 < sum_list ss"
  shows "\<exists>p w l. hillas_parameters_2 (map Fin xs) (map Fin ys) (map Fin ss) = Inr p
           \<and> h_width p = Fin w \<and> h_length p = Fin l \<and> 0 \<le> w \<and> w \<le> l
           \<and> h_size p = Fin (sum_list ss)"
proof -
  have len: "length xs = length ys" "length ys = length ss"
    using assms(1,2) by simp_all
  define b where "b = hillas_2_body (map Fin xs) (map Fin ys) (map Fin ss)"
  define M1 where "M1 = msum (\<lambda>x y. 1) xs ys ss"
  define mx where "mx = msum (\<lambda>x y. x) xs ys ss / M1"
  define my where "my = msum (\<lambda>x y. y) xs ys ss / M1"
  define vx2 where "vx2 = msum (\<lambda>x y. x * x) xs ys ss / M1 - mx * mx"
  define vy2 where "vy2 = msum (\<lambda>x y. y * y) xs ys ss / M1 - my * my"
  define vxy where "vxy = msum (\<lambda>x y. x * y) xs ys ss / M1 - mx * my"
  define zz where "zz = sqrt ((vy2 - vx2) * (vy2 - vx2) + 4 * (vxy * vxy))"
  have M1: "M1 = sum_list ss"
    unfolding M1_def by (rule msum_one[OF len])
  have pos: "0 < msum (\<lambda>x y. 1) xs ys ss"
    using assms(4) M1 by (simp add: M1_def)
  then have nz: "msum (\<lambda>x y. 1) xs ys ss \<noteq> 0"
    by simp
  have psd: "0 \<le> vx2" "0 \<le> vy2" "vxy * vxy \<le> vx2 * vy2"
    unfolding vx2_def vy2_def vxy_def mx_def my_def M1_def
    by (rule central_moments_psd[OF len assms(3) pos])+
  have zz_le: "zz \<le> vx2 + vy2"
    unfolding zz_def by (rule width_radicand_nonneg[OF psd])
  have zz_ge: "0 \<le> zz"
    unfolding zz_def by (simp add: sq_sum_not_neg not_less[symmetric])
  have v: "l_vx2 b = Fin vx2" "l_vy2 b = Fin vy2" "l_zz b = Fin zz"
    unfolding b_def vx2_def vy2_def vxy_def mx_def my_def M1_def zz_def
    by (rule hillas_2_vars_Fin[OF len nz])+
  have w: "l_width b = Fin (sqrt (vx2 + vy2 - zz))"
    unfolding b_def hillas_2_body_steps(11) unfolding b_def[symmetric] v
    using zz_le by simp
  have l: "l_length b = Fin (sqrt (vx2 + vy2 + zz))"
    unfolding b_def hillas_2_body_steps(12) unfolding b_def[symmetric] v
    using zz_ge psd(1,2) by simp
  have s: "l_size b = Fin (sum_list ss)"
    unfolding b_def using hillas_2_moms_Fin(1)[OF len nz] M1 by (simp add: M1_def)
  have ord: "0 \<le> sqrt (vx2 + vy2 - zz)" "sqrt (vx2 + vy2 - zz) \<le> sqrt (vx2 + vy2 + zz)"
    using zz_le zz_ge by simp_all
  show ?thesis
    using assms(1,2) w l s ord
    by (simp add: hillas_parameters_2_def Let_def b_def[symmetric])
qed

subsection \<open>The two functions on concrete images\<close>

lemma sqrt_4_9: "sqrt (4 / 9) = 2 / 3"
  by (rule real_sqrt_unique) (simp_all add: power2_eq_square)

lemma sqrt_25_16: "sqrt (25 / 16) = 5 / 4"
  by (rule real_sqrt_unique) (simp_all add: power2_eq_square)

lemma sqrt_neq:
  fixes c d :: real
  assumes "0 \<le> c" and "d * d \<noteq> c"
  shows "sqrt c \<noteq> d"
proof
  assume "sqrt c = d"
  then have "d * d = sqrt c * sqrt c"
    by simp
  also have "\<dots> = c"
    using assms(1) by simp
  finally show False
    using assms(2) by simp
qed

text \<open>
  C1 fails on the code. On the image with pixels \<open>(-1, 1)\<close>, \<open>(0, 0)\<close>, \<open>(1, 2)\<close>, each of
  intensity \<open>1\<close> (finite, non-negative, positive total, \<open>S_xy = 1/3\<close>), the two functions
  return different values of all four quantities: \<open>width\<close> is \<open>sqrt(1/3)\<close> against
  \<open>sqrt(2/3)\<close>, \<open>length\<close> is \<open>1\<close> against \<open>sqrt 2\<close>, \<open>miss\<close> is \<open>1/2\<close> against
  \<open>sqrt(1/2)\<close> (the local \<open>miss\<close> of \<open>hillas_parameters_2\<close>, which its dictionary does
  not contain), and \<open>azwidth\<close> is \<open>sqrt(2/3)\<close> against \<open>sqrt(5/3)\<close>.
\<close>

theorem C1_variants_disagree:
  "hillas_parameters [Fin (- 1), Fin 0, Fin 1] [Fin 1, Fin 0, Fin 2] [Fin 1, Fin 1, Fin 1]
     = Inr \<lparr>p_x = Fin 0, p_y = Fin 1, p_a = Fin 1, p_b = Fin 1,
            p_width = Fin (sqrt (1 / 3)), p_length = Fin 1,
            p_miss = Fin (1 / 2), p_r = Fin 1, p_azwidth = Fin (sqrt (2 / 3))\<rparr>
   \<and> hillas_parameters_2 [Fin (- 1), Fin 0, Fin 1] [Fin 1, Fin 0, Fin 2] [Fin 1, Fin 1, Fin 1]
     = Inr \<lparr>h_size = Fin 3, h_cx = Fin 0, h_cy = Fin 1,
            h_length = Fin (sqrt 2), h_width = Fin (sqrt (2 / 3)),
            h_distance = Fin 1, h_azwidth = Fin (sqrt (5 / 3)),
            h_psi = Fin (pi / 2 + arctan 1), h_phi = Fin (pi / 2),
            h_alpha = Fin (arcsin (sqrt (1 / 2)))\<rparr>
   \<and> l_miss (hillas_2_body [Fin (- 1), Fin 0, Fin 1] [Fin 1, Fin 0, Fin 2] [Fin 1, Fin 1, Fin 1])
     = Fin (sqrt (1 / 2))
   \<and> sqrt (1 / 3) \<noteq> sqrt (2 / 3) \<and> 1 \<noteq> sqrt 2 \<and> 1 / 2 \<noteq> sqrt (1 / 2)
   \<and> sqrt (2 / 3) \<noteq> sqrt (5 / 3)"
proof -
  have "1 / 2 \<noteq> sqrt (1 / 2)"
    using sqrt_neq[of "1 / 2" "1 / 2"] by simp
  moreover have "sqrt 1 \<noteq> sqrt 2" "sqrt (1 / 3) \<noteq> sqrt (2 / 3)" "sqrt (2 / 3) \<noteq> sqrt (5 / 3)"
    unfolding real_sqrt_eq_iff by simp_all
  ultimately show ?thesis
    by (simp add: hillas_parameters_def hillas_body_def hillas_parameters_2_def hillas_2_body_def
        Let_def arr_mul_def arr_add_def pow2_def sqrt_4_9)
qed

text \<open>
  C3 fails on the code. On the image with pixels \<open>(0, 1)\<close>, \<open>(1, 3)\<close> of intensity \<open>1\<close>
  the covariance is \<open>S_xy = 1/2\<close>, the major axis is \<open>y = 2 x + 1\<close>, and
  \<open>hillas_parameters\<close> returns \<open>miss = |b / (1 + a\<^sup>2)| = 1/5\<close>, which is not
  \<open>|b| / sqrt(1 + a\<^sup>2) = 1 / sqrt 5\<close>. The latter is the \<open>miss\<close> that
  \<open>hillas_parameters_2\<close> computes on the same image.
\<close>

theorem C3_miss_at_example:
  "v_S_xy (hillas_body [Fin 0, Fin 1] [Fin 1, Fin 3] [Fin 1, Fin 1]) = Fin (1 / 2)
   \<and> v_a (hillas_body [Fin 0, Fin 1] [Fin 1, Fin 3] [Fin 1, Fin 1]) = Fin 2
   \<and> v_b (hillas_body [Fin 0, Fin 1] [Fin 1, Fin 3] [Fin 1, Fin 1]) = Fin 1
   \<and> map_sum id p_miss (hillas_parameters [Fin 0, Fin 1] [Fin 1, Fin 3] [Fin 1, Fin 1])
       = Inr (Fin (1 / 5))
   \<and> \<bar>1\<bar> / sqrt (1 + 2 * 2) \<noteq> (1 / 5 :: real)
   \<and> l_miss (hillas_2_body [Fin 0, Fin 1] [Fin 1, Fin 3] [Fin 1, Fin 1])
       = Fin (\<bar>1\<bar> / sqrt (1 + 2 * 2))"
proof -
  have b: "hillas_body [Fin 0, Fin 1] [Fin 1, Fin 3] [Fin 1, Fin 1] =
    \<lparr>v_s = Fin 2, v_m_x = Fin (1 / 2), v_m_y = Fin 2, v_m_xx = Fin (1 / 2),
       v_m_yy = Fin 5, v_m_xy = Fin (3 / 2), v_S_xx = Fin (1 / 4),
       v_S_yy = Fin 1, v_S_xy = Fin (1 / 2), v_d = Fin (3 / 4),
       v_temp = Fin (25 / 16), v_a = Fin 2, v_b = Fin 1, v_width_2 = Fin 0,
       v_width = Fin 0, v_length_2 = Fin (5 / 4),
       v_length = Fin (sqrt (5 / 4)), v_miss = Fin (1 / 5),
       v_r = Fin (sqrt (17 / 4)), v_sin_theta = Fin (2 / sqrt (17 / 4)),
       v_cos_theta = Fin (1 / (2 * sqrt (17 / 4))),
       v_q = [Fin (1 / (2 * sqrt (17 / 4))), Fin (- (1 / (2 * sqrt (17 / 4))))],
       v_m_q = Fin 0, v_m_qq = Fin (1 / 17), v_azwidth_2 = Fin (1 / 17),
       v_azwidth = Fin (sqrt (1 / 17))\<rparr>"
    by (simp add: hillas_body_def Let_def arr_mul_def arr_add_def sqrt_25_16)
  have m: "l_miss (hillas_2_body [Fin 0, Fin 1] [Fin 1, Fin 3] [Fin 1, Fin 1]) = Fin (sqrt (1 / 5))"
    by (simp add: hillas_2_body_def Let_def arr_mul_def pow2_def sqrt_25_16)
  have s: "\<bar>1\<bar> / sqrt (1 + 2 * 2) = sqrt (1 / 5)"
    by (simp add: real_sqrt_divide)
  have n: "sqrt (1 / 5) \<noteq> 1 / 5"
    using sqrt_neq[of "1 / 5" "1 / 5"] by simp
  show ?thesis
    unfolding s using n by (simp add: b m hillas_parameters_def)
qed

subsection \<open>NaN and division by zero\<close>

lemma NaN_absorb [simp]:
  "u + NaN = NaN" "NaN + u = NaN" "u * NaN = NaN" "NaN * u = NaN"
  "u / NaN = NaN" "NaN / u = NaN" "u - NaN = NaN" "NaN - u = NaN"
  by (cases u; simp add: minus_float64_def)+

text \<open>
  C10. \<open>hillas_parameters\<close> returns normally whenever the three shapes agree. If the
  returned centroid is exactly the origin (\<open>m_x = 0\<close> and \<open>m_y = 0\<close>) then \<open>r = 0\<close>, the
  quotients \<open>m_y / r\<close> and \<open>m_x / r\<close> are \<open>0 / 0\<close>, and the returned \<open>azwidth\<close> is NaN.
\<close>

theorem C10_centroid_at_origin:
  assumes "length x = length s" and "length y = length s"
  shows "\<exists>p. hillas_parameters x y s = Inr p
           \<and> (p_x p = Fin 0 \<and> p_y p = Fin 0 \<longrightarrow> p_r p = Fin 0 \<and> p_azwidth p = NaN)"
proof -
  define v where "v = hillas_body x y s"
  note st = hillas_body_steps[of x y s, folded v_def]
  have "v_r v = Fin 0 \<and> v_azwidth v = NaN" if mx: "v_m_x v = Fin 0" and my: "v_m_y v = Fin 0"
  proof -
    have r: "v_r v = Fin 0"
      unfolding st(19) mx my by simp
    have sin_theta: "v_sin_theta v = NaN"
      unfolding st(20) my r by simp
    have cos_theta: "v_cos_theta v = NaN"
      unfolding st(21) mx r by simp
    have "s \<noteq> []"
    proof
      assume "s = []"
      then have "v_m_x v = NaN"
        unfolding st(2) st(1) by (simp add: arr_mul_def)
      with mx show False by simp
    qed
    then obtain s0 s' where s: "s = s0 # s'"
      by (cases s) auto
    obtain x0 x' where x: "x = x0 # x'"
      using assms(1) s by (cases x) auto
    obtain y0 y' where y: "y = y0 # y'"
      using assms(2) s by (cases y) auto
    obtain q' where q: "v_q v = NaN # q'"
      unfolding st(22) sin_theta cos_theta x y by (simp add: arr_add_def)
    have m_q: "v_m_q v = NaN"
      unfolding st(23) q s by (simp add: arr_mul_def)
    have "v_azwidth_2 v = NaN"
      unfolding st(25) m_q by simp
    then have "v_azwidth v = NaN"
      unfolding st(26) by simp
    with r show ?thesis ..
  qed
  then show ?thesis
    using assms by (simp add: hillas_parameters_def Let_def v_def[symmetric])
qed

theorem C10_centroid_at_origin_witness:
  "\<exists>p. hillas_parameters [Fin 1, Fin (- 1), Fin 0, Fin 0] [Fin 0, Fin 0, Fin 1, Fin (- 1)]
          [Fin 1, Fin 1, Fin 1, Fin 1] = Inr p
       \<and> p_x p = Fin 0 \<and> p_y p = Fin 0 \<and> p_r p = Fin 0 \<and> p_azwidth p = NaN"
proof -
  have "hillas_parameters [Fin 1, Fin (- 1), Fin 0, Fin 0] [Fin 0, Fin 0, Fin 1, Fin (- 1)]
          [Fin 1, Fin 1, Fin 1, Fin 1]
        = Inr \<lparr>p_x = Fin 0, p_y = Fin 0, p_a = NaN, p_b = NaN, p_width = NaN, p_length = NaN,
               p_miss = NaN, p_r = Fin 0, p_azwidth = NaN\<rparr>"
    by (simp add: hillas_parameters_def hillas_body_def Let_def arr_mul_def arr_add_def)
  then show ?thesis
    using C10_centroid_at_origin[of "[Fin 1, Fin (- 1), Fin 0, Fin 0]" "[Fin 1, Fin 1, Fin 1, Fin 1]"
        "[Fin 0, Fin 0, Fin 1, Fin (- 1)]"]
    by simp
qed













subsection \<open>Rounding to binary64\<close>

lemma floor_log2_eq:
  fixes x :: real
  assumes "2 powi e \<le> x" and "x < 2 powi (e + 1)"
  shows "\<lfloor>log 2 x\<rfloor> = e"
proof -
  have p: "0 < (2::real) powi e"
    by simp
  have pos: "0 < x"
    using assms(1) p by linarith
  have 1: "(2::real) powr (of_int e) = 2 powi e"
    by (rule powr_real_of_int') simp_all
  have 2: "(2::real) powr (of_int e + 1) = 2 powi (e + 1)"
    using powr_real_of_int'[of "2::real" "e + 1"] by simp
  show ?thesis
    using floor_log_eq_powr_iff[OF pos, of 2 e] assms by (simp add: 1 2)
qed

lemma binade_eq:
  assumes "2 powi e \<le> \<bar>x\<bar>" and "\<bar>x\<bar> < 2 powi (e + 1)" and "- 1022 \<le> e"
  shows "binade x = e"
  unfolding binade_def floor_log2_eq[OF assms(1,2)] using assms(3) by simp

lemma round_real_eval:
  assumes "2 powi e \<le> \<bar>x\<bar>" and "\<bar>x\<bar> < 2 powi (e + 1)" and "- 1022 \<le> e"
  shows "round_real x = of_int (round_half_even (x / 2 powi (e - 52))) * 2 powi (e - 52)"
proof -
  have p: "0 < (2::real) powi e"
    by simp
  have "0 < \<bar>x\<bar>"
    using assms(1) p by linarith
  then have "x \<noteq> 0"
    by simp
  then show ?thesis
    unfolding round_real_def binade_eq[OF assms] by simp
qed

lemma rhe_floor_bounds: "\<lfloor>r\<rfloor> \<le> round_half_even r" "round_half_even r \<le> \<lfloor>r\<rfloor> + 1"
  by (simp_all add: round_half_even_def Let_def)

lemma rhe_of_int [simp]: "round_half_even (of_int k) = k"
  by (simp add: round_half_even_def)

lemma rhe_mono:
  assumes "r \<le> r'"
  shows "round_half_even r \<le> round_half_even r'"
proof (cases "\<lfloor>r\<rfloor> = \<lfloor>r'\<rfloor>")
  case True
  then show ?thesis
    using assms by (auto simp: round_half_even_def Let_def)
next
  case False
  then have "\<lfloor>r\<rfloor> < \<lfloor>r'\<rfloor>"
    using floor_mono[OF assms] by simp
  then have "round_half_even r \<le> \<lfloor>r'\<rfloor>"
    using rhe_floor_bounds(2)[of r] by linarith
  then show ?thesis
    using rhe_floor_bounds(1)[of r'] by linarith
qed

lemma rhe_minus: "round_half_even (- r) = - round_half_even r"
proof (cases "r = of_int \<lfloor>r\<rfloor>")
  case True
  define k where "k = \<lfloor>r\<rfloor>"
  have rk: "r = of_int k"
    using True by (simp add: k_def)
  have "round_half_even (of_int (- k)) = - round_half_even (of_int k)"
    unfolding rhe_of_int ..
  then show ?thesis
    unfolding rk by simp
next
  case False
  define f where "f = \<lfloor>r\<rfloor>"
  have "of_int f \<le> r"
    unfolding f_def by (rule of_int_floor_le)
  moreover have "of_int f \<noteq> r"
    using False unfolding f_def by (rule not_sym)
  ultimately have lo: "of_int f < r"
    by (rule le_neq_trans)
  have hi: "r < of_int f + 1"
    unfolding f_def by linarith
  have fl: "\<lfloor>- r\<rfloor> = - f - 1"
    by (rule floor_unique) (use lo hi in simp_all)
  show ?thesis
    unfolding round_half_even_def Let_def fl f_def[symmetric]
    using lo hi by (auto simp: algebra_simps)
qed

lemma binade_bounds:
  assumes "x \<noteq> 0"
  shows "\<bar>x\<bar> < 2 powi (binade x + 1)"
    and "- 1022 < binade x \<Longrightarrow> 2 powi binade x \<le> \<bar>x\<bar>"
    and "- 1022 \<le> binade x"
proof -
  define k where "k = \<lfloor>log 2 \<bar>x\<bar>\<rfloor>"
  have pos: "0 < \<bar>x\<bar>"
    using assms by simp
  have 1: "(2::real) powr (of_int k) = 2 powi k"
    by (rule powr_real_of_int') simp_all
  have 2: "(2::real) powr (of_int k + 1) = 2 powi (k + 1)"
    using powr_real_of_int'[of "2::real" "k + 1"] by simp
  have b: "2 powi k \<le> \<bar>x\<bar>" "\<bar>x\<bar> < 2 powi (k + 1)"
    using floor_log_eq_powr_iff[OF pos, of 2 k] by (simp_all add: k_def[symmetric] 1 2)
  have e: "binade x = max k (- 1022)"
    by (simp add: binade_def k_def)
  show "- 1022 \<le> binade x"
    unfolding e by simp
  show "\<bar>x\<bar> < 2 powi (binade x + 1)"
  proof -
    have "(2::real) powi (k + 1) \<le> 2 powi (binade x + 1)"
      by (rule power_int_increasing) (simp_all add: e)
    with b(2) show ?thesis by linarith
  qed
  show "2 powi binade x \<le> \<bar>x\<bar>" if "- 1022 < binade x"
  proof -
    have "binade x = k"
      using that unfolding e by (simp add: max_def split: if_splits)
    with b(1) show ?thesis by simp
  qed
qed

lemma binade_mono:
  assumes "x \<noteq> 0" and "\<bar>x\<bar> \<le> \<bar>y\<bar>"
  shows "binade x \<le> binade y"
proof -
  have "log 2 \<bar>x\<bar> \<le> log 2 \<bar>y\<bar>"
    using assms by simp
  then have "\<lfloor>log 2 \<bar>x\<bar>\<rfloor> \<le> \<lfloor>log 2 \<bar>y\<bar>\<rfloor>"
    by (rule floor_mono)
  then show ?thesis
    unfolding binade_def by simp
qed

lemma ulp_times:
  "of_int (2 ^ 53) * (2::real) powi (e - 52) = 2 powi (e + 1)"
  "of_int (2 ^ 52) * (2::real) powi (e - 52) = 2 powi e"
proof -
  have "(2::real) powi (53 + (e - 52)) = 2 powi 53 * 2 powi (e - 52)"
    by (rule power_int_add) simp
  moreover have "53 + (e - 52) = e + 1"
    by simp
  moreover have "(2::real) powi 53 = of_int (2 ^ 53)"
    by simp
  ultimately show "of_int (2 ^ 53) * (2::real) powi (e - 52) = 2 powi (e + 1)"
    by (simp only:)
  have "(2::real) powi (52 + (e - 52)) = 2 powi 52 * 2 powi (e - 52)"
    by (rule power_int_add) simp
  moreover have "52 + (e - 52) = e"
    by simp
  moreover have "(2::real) powi 52 = of_int (2 ^ 52)"
    by simp
  ultimately show "of_int (2 ^ 52) * (2::real) powi (e - 52) = 2 powi e"
    by (simp only:)
qed

lemma round_real_pos_bounds:
  assumes "0 < x"
  shows "0 \<le> round_real x"
    and "round_real x \<le> 2 powi (binade x + 1)"
    and "2 powi binade x \<le> x \<Longrightarrow> 2 powi binade x \<le> round_real x"
proof -
  define u :: real where "u = 2 powi (binade x - 52)"
  have u: "0 < u"
    by (simp add: u_def)
  have nz: "x \<noteq> 0"
    using assms by simp
  have rr: "round_real x = of_int (round_half_even (x / u)) * u"
    using nz by (simp add: round_real_def u_def)
  have "round_half_even 0 \<le> round_half_even (x / u)"
    by (rule rhe_mono) (use assms u in simp)
  then have "0 \<le> round_half_even (x / u)"
    using rhe_of_int[of 0] by simp
  then show "0 \<le> round_real x"
    unfolding rr using u by simp
  have "x < 2 powi (binade x + 1)"
    using binade_bounds(1)[OF nz] assms by simp
  then have "x < of_int (2 ^ 53) * u"
    unfolding u_def ulp_times(1) .
  then have "x / u \<le> of_int (2 ^ 53)"
    using u by (simp only: pos_divide_le_eq less_imp_le)
  then have "round_half_even (x / u) \<le> round_half_even (of_int (2 ^ 53))"
    by (rule rhe_mono)
  then have "round_half_even (x / u) \<le> 2 ^ 53"
    unfolding rhe_of_int .
  then have "of_int (round_half_even (x / u)) * u \<le> of_int (2 ^ 53) * u"
    using u by (simp only: mult_le_cancel_right_pos of_int_le_iff)
  moreover have "of_int (2 ^ 53) * u = 2 powi (binade x + 1)"
    unfolding u_def by (rule ulp_times(1))
  ultimately show "round_real x \<le> 2 powi (binade x + 1)"
    unfolding rr by (rule ord_le_eq_trans)
  show "2 powi binade x \<le> round_real x" if "2 powi binade x \<le> x"
  proof -
    have "of_int (2 ^ 52) * u \<le> x"
      unfolding u_def ulp_times(2) by (rule that)
    then have "of_int (2 ^ 52) \<le> x / u"
      using u by (simp only: pos_le_divide_eq)
    then have "round_half_even (of_int (2 ^ 52)) \<le> round_half_even (x / u)"
      by (rule rhe_mono)
    then have "2 ^ 52 \<le> round_half_even (x / u)"
      unfolding rhe_of_int .
    then have "of_int (2 ^ 52) * u \<le> of_int (round_half_even (x / u)) * u"
      using u by (simp only: mult_le_cancel_right_pos of_int_le_iff)
    moreover have "2 powi binade x = of_int (2 ^ 52) * u"
      unfolding u_def by (rule ulp_times(2)[symmetric])
    ultimately show ?thesis
      unfolding rr by (rule ord_eq_le_trans[rotated])
  qed
qed

lemma round_real_mono_pos:
  assumes "0 < x" and "x \<le> y"
  shows "round_real x \<le> round_real y"
proof -
  have y: "0 < y"
    using assms by linarith
  have e: "binade x \<le> binade y"
    by (rule binade_mono) (use assms in simp_all)
  show ?thesis
  proof (cases "binade x = binade y")
    case True
    define u :: real where "u = 2 powi (binade y - 52)"
    have u: "0 < u"
      by (simp add: u_def)
    have "round_half_even (x / u) \<le> round_half_even (y / u)"
      by (rule rhe_mono) (use assms u in \<open>simp add: divide_right_mono\<close>)
    then have "of_int (round_half_even (x / u)) * u \<le> of_int (round_half_even (y / u)) * u"
      using u by (simp only: mult_le_cancel_right_pos of_int_le_iff)
    then show ?thesis
      using assms(1) y by (simp add: round_real_def True u_def)
  next
    case False
    then have lt: "binade x < binade y"
      using e by simp
    have "- 1022 \<le> binade x"
      by (rule binade_bounds(3)) (use assms in simp)
    then have "- 1022 < binade y"
      using lt by linarith
    then have "2 powi binade y \<le> \<bar>y\<bar>"
      by (rule binade_bounds(2)[rotated]) (use y in simp)
    then have "2 powi binade y \<le> round_real y"
      using round_real_pos_bounds(3)[OF y] y by simp
    moreover have "round_real x \<le> 2 powi (binade x + 1)"
      by (rule round_real_pos_bounds(2)[OF assms(1)])
    moreover have "(2::real) powi (binade x + 1) \<le> 2 powi binade y"
      by (rule power_int_increasing) (use lt in simp_all)
    ultimately show ?thesis
      by linarith
  qed
qed

lemma binade_minus [simp]: "binade (- x) = binade x"
  by (simp add: binade_def)

lemma round_real_minus: "round_real (- x) = - round_real x"
  by (simp add: round_real_def rhe_minus)

lemma round_real_0 [simp]: "round_real 0 = 0"
  by (simp add: round_real_def)

lemma round_real_mono:
  assumes "x \<le> y"
  shows "round_real x \<le> round_real y"
proof -
  have nonneg: "0 \<le> round_real z" if "0 \<le> z" for z
    using that round_real_pos_bounds(1)[of z] by (cases "z = 0") simp_all
  have nonpos: "round_real z \<le> 0" if "z \<le> 0" for z
    using nonneg[of "- z"] that by (simp add: round_real_minus)
  consider "0 < x" | "x \<le> 0" "0 \<le> y" | "y < 0"
    using assms by linarith
  then show ?thesis
  proof cases
    case 1
    then show ?thesis
      by (rule round_real_mono_pos) (rule assms)
  next
    case 2
    then show ?thesis
      using nonneg[of y] nonpos[of x] by linarith
  next
    case 3
    then have "round_real (- y) \<le> round_real (- x)"
      by (intro round_real_mono_pos) (use assms in simp_all)
    then show ?thesis
      by (simp add: round_real_minus)
  qed
qed

lemma hillas_2_body_ieee_steps:
  fixes pix_x pix_y image_arr
  defines "l \<equiv> hillas_2_body_ieee pix_x pix_y image_arr"
  shows "l_size l = r_sum image_arr"
    and "l_moms l = map (\<lambda>row. r_div (r_sum (r_arr_mul row image_arr)) (r_sum image_arr))
                      [pix_x, pix_y, r_arr_mul pix_x pix_x, r_arr_mul pix_y pix_y,
                       r_arr_mul pix_x pix_y]"
    and "l_vx2 l = r_sub (l_moms l ! 2) (r_pow2 (l_moms l ! 0))"
    and "l_vy2 l = r_sub (l_moms l ! 3) (r_pow2 (l_moms l ! 1))"
    and "l_vxy l = r_sub (l_moms l ! 4) (r_mul (l_moms l ! 0) (l_moms l ! 1))"
    and "l_dd l = r_sub (l_vy2 l) (l_vx2 l)"
    and "l_zz l = r_sqrt (r_add (r_pow2 (l_dd l)) (r_mul (Fin 4) (r_pow2 (l_vxy l))))"
    and "l_width l = r_sqrt (r_sub (r_add (l_vx2 l) (l_vy2 l)) (l_zz l))"
    and "l_length l = r_sqrt (r_add (r_add (l_vx2 l) (l_vy2 l)) (l_zz l))"
  unfolding l_def hillas_2_body_ieee_def Let_def
  by (simp_all only: hillas_2_locals.select_convs list.map comp_def)

lemma round_double_mono:
  assumes "x \<le> y"
  shows "fle (round_double x) (round_double y)"
  using round_real_mono[OF assms] by (auto simp: round_double_def Let_def)

lemma round_double_0 [simp]: "round_double 0 = Fin 0"
  by (simp add: round_double_def)

lemma rnd64_mono:
  assumes "fle u v"
  shows "fle (rnd64 u) (rnd64 v)"
proof (cases u; cases v)
  fix a b
  assume "u = Fin a" "v = Fin b"
  then show ?thesis
    using assms round_double_mono[of a b] by simp
next
  fix a
  assume "u = Fin a" "v = PInf"
  then show ?thesis
    by (simp add: round_double_def Let_def)
next
  fix b
  assume "u = NInf" "v = Fin b"
  then show ?thesis
    by (simp add: round_double_def Let_def)
qed (use assms in simp_all)

lemma np_sqrt_mono:
  assumes "fle u v" and "np_sqrt u \<noteq> NaN"
  shows "fle (np_sqrt u) (np_sqrt v)" and "fle (Fin 0) (np_sqrt u)"
  using assms by (cases u; cases v; simp split: if_splits)+

lemma rnd64_NaN_iff [simp]: "rnd64 v = NaN \<longleftrightarrow> v = NaN"
  by (cases v) (simp_all add: round_double_def Let_def)

lemma r_sqrt_mono:
  assumes "fle u v" and "r_sqrt u \<noteq> NaN"
  shows "fle (r_sqrt u) (r_sqrt v)" and "fle (Fin 0) (r_sqrt u)"
proof -
  have n: "np_sqrt u \<noteq> NaN"
    using assms(2) by (simp add: r_sqrt_def)
  show "fle (r_sqrt u) (r_sqrt v)"
    unfolding r_sqrt_def by (rule rnd64_mono) (rule np_sqrt_mono(1)[OF assms(1) n])
  have "fle (rnd64 (Fin 0)) (rnd64 (np_sqrt u))"
    by (rule rnd64_mono) (rule np_sqrt_mono(2)[OF assms(1) n])
  then show "fle (Fin 0) (r_sqrt u)"
    by (simp add: r_sqrt_def)
qed

lemma r_sqrt_range: "r_sqrt v = NaN \<or> fle (Fin 0) (r_sqrt v)"
proof (cases "r_sqrt v = NaN")
  case False
  have "fle v v"
    using False by (cases v) (simp_all add: r_sqrt_def)
  from r_sqrt_mono(2)[OF this False] show ?thesis ..
qed simp

lemma sub_le_add:
  assumes "fle (Fin 0) z" and "t - z \<noteq> NaN" and "t - z \<noteq> NInf"
  shows "fle (t - z) (t + z)"
  using assms by (cases t; cases z) (simp_all add: minus_float64_def)

lemma width_le_length_ieee:
  assumes "fle (Fin 0) z" and "r_sqrt (r_sub t z) \<noteq> NaN"
  shows "fle (r_sqrt (r_sub t z)) (r_sqrt (r_add t z))"
proof -
  have "t - z \<noteq> NaN" and "t - z \<noteq> NInf"
    using assms(2) by (auto simp: r_sqrt_def r_sub_def)
  then have "fle (t - z) (t + z)"
    by (rule sub_le_add[OF assms(1)])
  then have "fle (r_sub t z) (r_add t z)"
    unfolding r_sub_def r_add_def by (rule rnd64_mono)
  then show ?thesis
    by (rule r_sqrt_mono(1)) (rule assms(2))
qed

lemma round_real_abs_bound:
  assumes "x \<noteq> 0"
  shows "\<bar>round_real x\<bar> \<le> 2 powi (binade x + 1)"
proof (cases "0 < x")
  case True
  then show ?thesis
    using round_real_pos_bounds(1,2)[OF True] by simp
next
  case False
  then have neg: "0 < - x"
    using assms by simp
  have "0 \<le> round_real (- x)" and "round_real (- x) \<le> 2 powi (binade (- x) + 1)"
    by (rule round_real_pos_bounds[OF neg])+
  then show ?thesis
    by (simp add: round_real_minus)
qed

lemma round_double_eval:
  assumes "2 powi e \<le> \<bar>x\<bar>" and "\<bar>x\<bar> < 2 powi (e + 1)" and "- 1022 \<le> e" and "e \<le> 1022"
  shows "round_double x = Fin (of_int (round_half_even (x / 2 powi (e - 52))) * 2 powi (e - 52))"
proof -
  have p: "0 < (2::real) powi e"
    by simp
  have "0 < \<bar>x\<bar>"
    using assms(1) p by linarith
  then have nz: "x \<noteq> 0"
    by simp
  have e: "binade x = e"
    by (rule binade_eq[OF assms(1,2,3)])
  have "\<bar>round_real x\<bar> \<le> 2 powi (e + 1)"
    using round_real_abs_bound[OF nz] unfolding e .
  moreover have "(2::real) powi (e + 1) < 2 powi 1024"
    by (rule power_int_strict_increasing) (use assms(4) in simp_all)
  ultimately have "\<bar>round_real x\<bar> < 2 powi 1024"
    by linarith
  then have "\<not> 2 powi 1024 \<le> round_real x" and "\<not> round_real x \<le> - (2 powi 1024)"
    by linarith+
  then show ?thesis
    unfolding round_double_def Let_def round_real_eval[OF assms(1,2,3)] by simp
qed

lemma rhe_strict:
  assumes "of_int m - 1 / 2 < r" and "r < of_int m + 1 / 2"
  shows "round_half_even r = m"
proof (cases "of_int m \<le> r")
  case True
  then have "\<lfloor>r\<rfloor> = m"
    using assms(2) by (intro floor_unique) simp_all
  then show ?thesis
    using assms by (simp add: round_half_even_def Let_def)
next
  case False
  then have "\<lfloor>r\<rfloor> = m - 1"
    using assms(1) by (intro floor_unique) simp_all
  then show ?thesis
    using assms False by (simp add: round_half_even_def Let_def)
qed

lemma round_double_sqrt_eval:
  assumes "(2 powi e)\<^sup>2 \<le> t" and "t < (2 powi (e + 1))\<^sup>2" and "- 1022 \<le> e" and "e \<le> 1022"
    and "((of_int m - 1 / 2) * 2 powi (e - 52))\<^sup>2 < t"
    and "t < ((of_int m + 1 / 2) * 2 powi (e - 52))\<^sup>2"
    and "0 \<le> m"
  shows "round_double (sqrt t) = Fin (of_int m * 2 powi (e - 52))"
proof -
  define u :: real where "u = 2 powi (e - 52)"
  have u: "0 < u"
    by (simp add: u_def)
  have lo: "2 powi e \<le> sqrt t"
    by (rule real_le_rsqrt) (rule assms(1))
  have hi: "sqrt t < 2 powi (e + 1)"
    by (rule real_less_lsqrt) (use assms(2) in simp_all)
  have "(of_int m - 1 / 2) * u < sqrt t"
    by (rule real_less_rsqrt) (use assms(5) in \<open>simp add: u_def\<close>)
  then have 1: "of_int m - 1 / 2 < sqrt t / u"
    using u by (simp only: pos_less_divide_eq)
  have "0 \<le> (of_int m + 1 / 2) * u"
    using u assms(7) by simp
  then have "sqrt t < (of_int m + 1 / 2) * u"
    by (rule real_less_lsqrt) (use assms(6) in \<open>simp add: u_def\<close>)
  then have 2: "sqrt t / u < of_int m + 1 / 2"
    using u by (simp only: pos_divide_less_eq)
  have m: "round_half_even (sqrt t / u) = m"
    by (rule rhe_strict[OF 1 2])
  have "0 < sqrt t"
    using lo zero_less_power_int[of "2::real" e] by linarith
  then have a: "\<bar>sqrt t\<bar> = sqrt t"
    by simp
  show ?thesis
    using round_double_eval[of e "sqrt t", unfolded a, OF lo hi assms(3,4)]
    unfolding u_def[symmetric] m .
qed

subsection \<open>Width and length with rounding\<close>

lemma round_double_small:
  "round_double 1 = Fin 1"
  "round_double 2 = Fin 2"
  "round_double 3 = Fin 3"
  "round_double 4 = Fin 4"
  "round_double 5 = Fin 5"
  "round_double 8 = Fin 8"
  "round_double 9 = Fin 9"
  by (subst round_double_eval[where e = 0] round_double_eval[where e = 1]
        round_double_eval[where e = 2] round_double_eval[where e = 3];
      simp add: round_half_even_def Let_def)+

lemma ieee_step_1:
  "r_div (Fin 2)
         (Fin 3)
     = Fin (6004799503160661 / 9007199254740992)"
  unfolding r_div_def by (simp add: minus_float64_def, subst round_double_eval[where e = "- 1"])
    (simp_all add: round_half_even_def Let_def)

lemma ieee_step_2:
  "r_div (Fin 5)
         (Fin 3)
     = Fin (7505999378950827 / 4503599627370496)"
  unfolding r_div_def by (simp add: minus_float64_def, subst round_double_eval[where e = "0"])
    (simp_all add: round_half_even_def Let_def)

lemma ieee_step_3:
  "r_div (Fin 9)
         (Fin 3)
     = Fin 3"
  unfolding r_div_def by (simp add: minus_float64_def, subst round_double_eval[where e = "1"])
    (simp_all add: round_half_even_def Let_def)

lemma ieee_step_4:
  "r_div (Fin 4)
         (Fin 3)
     = Fin (6004799503160661 / 4503599627370496)"
  unfolding r_div_def by (simp add: minus_float64_def, subst round_double_eval[where e = "0"])
    (simp_all add: round_half_even_def Let_def)

lemma ieee_step_5:
  "r_mul (Fin (6004799503160661 / 9007199254740992))
         (Fin (6004799503160661 / 9007199254740992))
     = Fin (2001599834386887 / 4503599627370496)"
  unfolding r_mul_def by (simp add: minus_float64_def, subst round_double_eval[where e = "- 2"])
    (simp_all add: round_half_even_def Let_def)

lemma ieee_step_6:
  "r_mul (Fin (7505999378950827 / 4503599627370496))
         (Fin (7505999378950827 / 4503599627370496))
     = Fin (6254999482459023 / 2251799813685248)"
  unfolding r_mul_def by (simp add: minus_float64_def, subst round_double_eval[where e = "1"])
    (simp_all add: round_half_even_def Let_def)

lemma ieee_step_7:
  "r_mul (Fin (6004799503160661 / 9007199254740992))
         (Fin (7505999378950827 / 4503599627370496))
     = Fin (2501999792983609 / 2251799813685248)"
  unfolding r_mul_def by (simp add: minus_float64_def, subst round_double_eval[where e = "0"])
    (simp_all add: round_half_even_def Let_def)

lemma ieee_step_8:
  "r_sub (Fin (6004799503160661 / 9007199254740992))
         (Fin (2001599834386887 / 4503599627370496))
     = Fin (2001599834386887 / 9007199254740992)"
  unfolding r_sub_def by (simp add: minus_float64_def, subst round_double_eval[where e = "- 3"])
    (simp_all add: round_half_even_def Let_def)

lemma ieee_step_9:
  "r_sub (Fin 3)
         (Fin (6254999482459023 / 2251799813685248))
     = Fin (500399958596721 / 2251799813685248)"
  unfolding r_sub_def by (simp add: minus_float64_def, subst round_double_eval[where e = "- 3"])
    (simp_all add: round_half_even_def Let_def)

lemma ieee_step_10:
  "r_sub (Fin (6004799503160661 / 4503599627370496))
         (Fin (2501999792983609 / 2251799813685248))
     = Fin (1000799917193443 / 4503599627370496)"
  unfolding r_sub_def by (simp add: minus_float64_def, subst round_double_eval[where e = "- 3"])
    (simp_all add: round_half_even_def Let_def)

lemma ieee_step_11:
  "r_sub (Fin (500399958596721 / 2251799813685248))
         (Fin (2001599834386887 / 9007199254740992))
     = Fin (- (3 / 9007199254740992))"
  unfolding r_sub_def by (simp add: minus_float64_def, subst round_double_eval[where e = "- 52"])
    (simp_all add: round_half_even_def Let_def)

lemma ieee_step_12:
  "r_mul (Fin (- (3 / 9007199254740992)))
         (Fin (- (3 / 9007199254740992)))
     = Fin (9 / 81129638414606681695789005144064)"
  unfolding r_mul_def by (simp add: minus_float64_def, subst round_double_eval[where e = "- 103"])
    (simp_all add: round_half_even_def Let_def)

lemma ieee_step_13:
  "r_mul (Fin (1000799917193443 / 4503599627370496))
         (Fin (1000799917193443 / 4503599627370496))
     = Fin (889599926394171 / 18014398509481984)"
  unfolding r_mul_def by (simp add: minus_float64_def, subst round_double_eval[where e = "- 5"])
    (simp_all add: round_half_even_def Let_def)

lemma ieee_step_14:
  "r_mul (Fin 4)
         (Fin (889599926394171 / 18014398509481984))
     = Fin (889599926394171 / 4503599627370496)"
  unfolding r_mul_def by (simp add: minus_float64_def, subst round_double_eval[where e = "- 3"])
    (simp_all add: round_half_even_def Let_def)

lemma ieee_step_15:
  "r_add (Fin (9 / 81129638414606681695789005144064))
         (Fin (889599926394171 / 4503599627370496))
     = Fin (889599926394171 / 4503599627370496)"
  unfolding r_add_def by (simp add: minus_float64_def, subst round_double_eval[where e = "- 3"])
    (simp_all add: round_half_even_def Let_def)

lemma ieee_step_16:
  "r_add (Fin (2001599834386887 / 9007199254740992))
         (Fin (500399958596721 / 2251799813685248))
     = Fin (4003199668773771 / 9007199254740992)"
  unfolding r_add_def by (simp add: minus_float64_def, subst round_double_eval[where e = "- 2"])
    (simp_all add: round_half_even_def Let_def)

lemma ieee_step_17:
  "r_sub (Fin (4003199668773771 / 9007199254740992))
         (Fin (1000799917193443 / 2251799813685248))
     = Fin (- (1 / 9007199254740992))"
  unfolding r_sub_def by (simp add: minus_float64_def, subst round_double_eval[where e = "- 53"])
    (simp_all add: round_half_even_def Let_def)

lemma ieee_step_sqrt:
  "r_sqrt (Fin (889599926394171 / 4503599627370496))
     = Fin (1000799917193443 / 2251799813685248)"
  unfolding r_sqrt_def
  by (simp, rule round_double_sqrt_eval[where e = "- 2" and m = 8006399337547544, simplified])
    (simp_all add: power2_eq_square)

lemmas ieee_steps =
  ieee_step_1 ieee_step_2 ieee_step_3 ieee_step_4 ieee_step_5 ieee_step_6 ieee_step_7 ieee_step_8 ieee_step_9
  ieee_step_10 ieee_step_11 ieee_step_12 ieee_step_13 ieee_step_14 ieee_step_15 ieee_step_16 ieee_step_17 ieee_step_sqrt

text \<open>
  C5 as stated fails on the rounded arithmetic. The image with pixels \<open>(0, 1)\<close>, \<open>(1, 2)\<close>
  and intensities \<open>1\<close>, \<open>2\<close> is a valid one (non-negative intensities, total \<open>3\<close>). Its
  exact central moments are all \<open>2/9\<close> and the exact radicand of \<open>width\<close> is \<open>0\<close>; with
  binary64 rounding the radicand \<open>vx2 + vy2 - zz\<close> comes out as \<open>-2\<^sup>-\<^sup>5\<^sup>3\<close>, and the returned
  \<open>width\<close> is NaN.
\<close>

theorem C5_counterexample:
  "l_moms (hillas_2_body_ieee [Fin 0, Fin 1] [Fin 1, Fin 2] [Fin 1, Fin 2])
     = [Fin (6004799503160661 / 9007199254740992),
        Fin (7505999378950827 / 4503599627370496),
        Fin (6004799503160661 / 9007199254740992),
        Fin 3,
        Fin (6004799503160661 / 4503599627370496)]
   \<and> l_vx2 (hillas_2_body_ieee [Fin 0, Fin 1] [Fin 1, Fin 2] [Fin 1, Fin 2])
     = Fin (2001599834386887 / 9007199254740992)
   \<and> l_vy2 (hillas_2_body_ieee [Fin 0, Fin 1] [Fin 1, Fin 2] [Fin 1, Fin 2])
     = Fin (500399958596721 / 2251799813685248)
   \<and> l_vxy (hillas_2_body_ieee [Fin 0, Fin 1] [Fin 1, Fin 2] [Fin 1, Fin 2])
     = Fin (1000799917193443 / 4503599627370496)
   \<and> l_zz (hillas_2_body_ieee [Fin 0, Fin 1] [Fin 1, Fin 2] [Fin 1, Fin 2])
     = Fin (1000799917193443 / 2251799813685248)
   \<and> r_sub (r_add (l_vx2 (hillas_2_body_ieee [Fin 0, Fin 1] [Fin 1, Fin 2] [Fin 1, Fin 2]))
                 (l_vy2 (hillas_2_body_ieee [Fin 0, Fin 1] [Fin 1, Fin 2] [Fin 1, Fin 2])))
           (l_zz (hillas_2_body_ieee [Fin 0, Fin 1] [Fin 1, Fin 2] [Fin 1, Fin 2]))
     = Fin (- (1 / 9007199254740992))
   \<and> map_sum id h_width (hillas_parameters_2_ieee [Fin 0, Fin 1] [Fin 1, Fin 2] [Fin 1, Fin 2]) = Inr NaN
   \<and> map_sum id h_size (hillas_parameters_2_ieee [Fin 0, Fin 1] [Fin 1, Fin 2] [Fin 1, Fin 2]) = Inr (Fin 3)"
proof -
  define l where "l = hillas_2_body_ieee [Fin 0, Fin 1] [Fin 1, Fin 2] [Fin 1, Fin 2]"
  note st = hillas_2_body_ieee_steps[of "[Fin 0, Fin 1]" "[Fin 1, Fin 2]" "[Fin 1, Fin 2]", folded l_def]
  have moms: "l_moms l = [Fin (6004799503160661 / 9007199254740992),
        Fin (7505999378950827 / 4503599627370496),
        Fin (6004799503160661 / 9007199254740992),
        Fin 3,
        Fin (6004799503160661 / 4503599627370496)]"
    unfolding st(2) by (simp add: r_sum_def r_arr_mul_def r_mul_def r_add_def round_double_small ieee_steps)
  have vx2: "l_vx2 l = Fin (2001599834386887 / 9007199254740992)"
    unfolding st(3) moms by (simp add: r_pow2_def ieee_steps)
  have vy2: "l_vy2 l = Fin (500399958596721 / 2251799813685248)"
    unfolding st(4) moms by (simp add: r_pow2_def ieee_steps)
  have vxy: "l_vxy l = Fin (1000799917193443 / 4503599627370496)"
    unfolding st(5) moms by (simp add: r_pow2_def ieee_steps)
  have dd: "l_dd l = Fin (- (3 / 9007199254740992))"
    unfolding st(6) vx2 vy2 by (simp add: r_pow2_def ieee_steps)
  have zz: "l_zz l = Fin (1000799917193443 / 2251799813685248)"
    unfolding st(7) dd vxy by (simp add: r_pow2_def ieee_steps)
  have rad: "r_sub (r_add (l_vx2 l) (l_vy2 l)) (l_zz l) = Fin (- (1 / 9007199254740992))"
    unfolding vx2 vy2 zz by (simp add: ieee_steps)
  have width: "l_width l = NaN"
    unfolding st(8) rad by (simp add: r_sqrt_def)
  have arr: "asanyarray [Fin 0, Fin 1] = [Fin 0, Fin 1]" "asanyarray [Fin 1, Fin 2] = [Fin 1, Fin 2]"
    by (simp_all add: asanyarray_def round_double_small)
  have size_h: "l_size l = Fin 3"
    unfolding st(1) by (simp add: r_sum_def r_add_def round_double_small)
  show ?thesis
    unfolding l_def[symmetric] using moms vx2 vy2 vxy zz rad width size_h
    by (simp add: hillas_parameters_2_ieee_def Let_def arr l_def[symmetric])
qed

lemma length_asanyarray [simp]: "length (asanyarray vs) = length vs"
  by (simp add: asanyarray_def)

text \<open>
  C5, amended. With rounding, for arrays of one shape, \<open>hillas_parameters_2\<close> returns
  \<open>size\<close> as \<open>np.sum\<close> of the intensities, and either \<open>width\<close> is NaN or
  \<open>0 \<le> width \<le> length\<close>.
\<close>

theorem C5_width_nan_or_ordered:
  assumes "length pix_x = length image_arr" and "length pix_y = length image_arr"
  shows "\<exists>p. hillas_parameters_2_ieee pix_x pix_y image_arr = Inr p
           \<and> h_size p = r_sum (asanyarray image_arr)
           \<and> (h_width p = NaN \<or> (fle (Fin 0) (h_width p) \<and> fle (h_width p) (h_length p)))"
proof -
  define l where "l = hillas_2_body_ieee (asanyarray pix_x) (asanyarray pix_y) (asanyarray image_arr)"
  note st = hillas_2_body_ieee_steps[of "asanyarray pix_x" "asanyarray pix_y" "asanyarray image_arr",
      folded l_def]
  have "fle (Fin 0) (l_width l) \<and> fle (l_width l) (l_length l)" if w: "l_width l \<noteq> NaN"
  proof -
    have "l_zz l \<noteq> NaN"
    proof
      assume "l_zz l = NaN"
      then have "l_width l = NaN"
        unfolding st(8) by (simp add: r_sub_def r_sqrt_def)
      with w show False ..
    qed
    then have z: "fle (Fin 0) (l_zz l)"
      unfolding st(7) using r_sqrt_range by blast
    have 1: "fle (l_width l) (l_length l)"
      unfolding st(8) st(9) by (rule width_le_length_ieee[OF z]) (use w in \<open>simp add: st(8)\<close>)
    have 2: "fle (Fin 0) (l_width l)"
      using r_sqrt_range[of "r_sub (r_add (l_vx2 l) (l_vy2 l)) (l_zz l)"] w
      unfolding st(8) by blast
    from 2 1 show ?thesis ..
  qed
  then show ?thesis
    using assms st(1)
    by (auto simp add: hillas_parameters_2_ieee_def Let_def l_def[symmetric])
qed

theorem C5_width_nan_or_ordered_witness:
  "\<exists>p. hillas_parameters_2_ieee [Fin 0, Fin 1, Fin 2] [Fin 0, Fin 0, Fin 0] [Fin 10, Fin 1, Fin 1] = Inr p
       \<and> h_size p = r_sum (asanyarray [Fin 10, Fin 1, Fin 1])
       \<and> (h_width p = NaN \<or> (fle (Fin 0) (h_width p) \<and> fle (h_width p) (h_length p)))"
  using C5_width_nan_or_ordered[of "[Fin 0, Fin 1, Fin 2]" "[Fin 10, Fin 1, Fin 1]"
      "[Fin 0, Fin 0, Fin 0]"]
  by simp

subsection \<open>The radicands of width and length\<close>

text \<open>
  C4 as stated fails: the source has no clamp. On the two-pixel image \<open>(0, 0)\<close>, \<open>(1, 0)\<close>
  with pixel values \<open>2\<close> and \<open>-1\<close> the radicand \<open>vx2 + vy2 - zz\<close> is \<open>-4\<close> and the returned
  \<open>width\<close> is NaN. (In exact arithmetic a negative radicand needs a negative pixel value,
  see \<open>hillas_2_ordering_exact\<close>; the function accepts such arrays, and it treats a
  negative radicand the same way wherever it comes from. With rounding a negative
  radicand arises on images of non-negative intensity as well, see C5.)
\<close>

theorem C4_counterexample:
  "l_vx2 (hillas_2_body [Fin 0, Fin 1] [Fin 0, Fin 0] [Fin 2, Fin (- 1)])
   + l_vy2 (hillas_2_body [Fin 0, Fin 1] [Fin 0, Fin 0] [Fin 2, Fin (- 1)])
   - l_zz (hillas_2_body [Fin 0, Fin 1] [Fin 0, Fin 0] [Fin 2, Fin (- 1)]) = Fin (- 4)
   \<and> hillas_parameters_2 [Fin 0, Fin 1] [Fin 0, Fin 0] [Fin 2, Fin (- 1)]
     = Inr \<lparr>h_size = Fin 1, h_cx = Fin (- 1), h_cy = Fin 0, h_length = Fin 0, h_width = NaN,
            h_distance = Fin 1, h_azwidth = NaN, h_psi = Fin (pi / 2), h_phi = Fin pi,
            h_alpha = Fin (pi / 2)\<rparr>"
  by (simp add: hillas_parameters_2_def hillas_2_body_def Let_def arr_mul_def pow2_def)

text \<open>
  C4, amended. \<open>hillas_parameters_2\<close> takes \<open>np.sqrt\<close> of the radicands as they are:
  \<open>width = sqrt(vx2 + vy2 - zz)\<close> and \<open>length = sqrt(vx2 + vy2 + zz)\<close>, so that whenever a
  radicand is a negative number the returned \<open>width\<close> (respectively \<open>length\<close>) is NaN.
\<close>

theorem C4_radicand_not_clamped:
  assumes "length pix_x = length image_arr" and "length pix_y = length image_arr"
  shows "\<exists>p. hillas_parameters_2 pix_x pix_y image_arr = Inr p
           \<and> h_width p = np_sqrt (l_vx2 (hillas_2_body pix_x pix_y image_arr)
                                   + l_vy2 (hillas_2_body pix_x pix_y image_arr)
                                   - l_zz (hillas_2_body pix_x pix_y image_arr))
           \<and> h_length p = np_sqrt (l_vx2 (hillas_2_body pix_x pix_y image_arr)
                                    + l_vy2 (hillas_2_body pix_x pix_y image_arr)
                                    + l_zz (hillas_2_body pix_x pix_y image_arr))
           \<and> (\<forall>r. l_vx2 (hillas_2_body pix_x pix_y image_arr)
                     + l_vy2 (hillas_2_body pix_x pix_y image_arr)
                     - l_zz (hillas_2_body pix_x pix_y image_arr) = Fin r \<and> r < 0
                  \<longrightarrow> h_width p = NaN)
           \<and> (\<forall>r. l_vx2 (hillas_2_body pix_x pix_y image_arr)
                     + l_vy2 (hillas_2_body pix_x pix_y image_arr)
                     + l_zz (hillas_2_body pix_x pix_y image_arr) = Fin r \<and> r < 0
                  \<longrightarrow> h_length p = NaN)"
proof -
  define l where "l = hillas_2_body pix_x pix_y image_arr"
  note st = hillas_2_body_steps[of pix_x pix_y image_arr, folded l_def]
  have w: "l_width l = NaN" if "l_vx2 l + l_vy2 l - l_zz l = Fin r" and "r < 0" for r
    unfolding st(11) using that by simp
  have le: "l_length l = NaN" if "l_vx2 l + l_vy2 l + l_zz l = Fin r" and "r < 0" for r
    unfolding st(12) using that by simp
  show ?thesis
    unfolding l_def[symmetric] using assms w le
    by (auto simp add: hillas_parameters_2_def Let_def l_def[symmetric] st(11,12))
qed

theorem C4_radicand_not_clamped_witness:
  "\<exists>p. hillas_parameters_2 [Fin 0, Fin 1, Fin 0] [Fin 0, Fin 0, Fin 1] [Fin 3, Fin (- 1), Fin (- 1)]
          = Inr p
       \<and> l_vx2 (hillas_2_body [Fin 0, Fin 1, Fin 0] [Fin 0, Fin 0, Fin 1] [Fin 3, Fin (- 1), Fin (- 1)])
         + l_vy2 (hillas_2_body [Fin 0, Fin 1, Fin 0] [Fin 0, Fin 0, Fin 1] [Fin 3, Fin (- 1), Fin (- 1)])
         - l_zz (hillas_2_body [Fin 0, Fin 1, Fin 0] [Fin 0, Fin 0, Fin 1] [Fin 3, Fin (- 1), Fin (- 1)])
         = Fin (- 6)
       \<and> l_vx2 (hillas_2_body [Fin 0, Fin 1, Fin 0] [Fin 0, Fin 0, Fin 1] [Fin 3, Fin (- 1), Fin (- 1)])
         + l_vy2 (hillas_2_body [Fin 0, Fin 1, Fin 0] [Fin 0, Fin 0, Fin 1] [Fin 3, Fin (- 1), Fin (- 1)])
         + l_zz (hillas_2_body [Fin 0, Fin 1, Fin 0] [Fin 0, Fin 0, Fin 1] [Fin 3, Fin (- 1), Fin (- 1)])
         = Fin (- 2)
       \<and> h_width p = NaN \<and> h_length p = NaN"
proof -
  have b: "l_vx2 (hillas_2_body [Fin 0, Fin 1, Fin 0] [Fin 0, Fin 0, Fin 1] [Fin 3, Fin (- 1), Fin (- 1)]) = Fin (- 2)"
    "l_vy2 (hillas_2_body [Fin 0, Fin 1, Fin 0] [Fin 0, Fin 0, Fin 1] [Fin 3, Fin (- 1), Fin (- 1)]) = Fin (- 2)"
    "l_zz (hillas_2_body [Fin 0, Fin 1, Fin 0] [Fin 0, Fin 0, Fin 1] [Fin 3, Fin (- 1), Fin (- 1)]) = Fin 2"
    by (simp_all add: hillas_2_body_def Let_def arr_mul_def pow2_def)
  show ?thesis
    using C4_radicand_not_clamped[of "[Fin 0, Fin 1, Fin 0]" "[Fin 3, Fin (- 1), Fin (- 1)]"
        "[Fin 0, Fin 0, Fin 1]"]
    by (auto simp add: b)
qed

subsection \<open>Translating the image\<close>

lemma msum_shift:
  fixes xs ys ss :: "real list" and dx dy :: real
  assumes "length xs = length ys" "length ys = length ss"
  defines "xs' \<equiv> map (\<lambda>x. x + dx) xs" and "ys' \<equiv> map (\<lambda>y. y + dy) ys"
  shows "msum (\<lambda>x y. 1) xs' ys' ss = msum (\<lambda>x y. 1) xs ys ss"
    and "msum (\<lambda>x y. x) xs' ys' ss = msum (\<lambda>x y. x) xs ys ss + dx * msum (\<lambda>x y. 1) xs ys ss"
    and "msum (\<lambda>x y. y) xs' ys' ss = msum (\<lambda>x y. y) xs ys ss + dy * msum (\<lambda>x y. 1) xs ys ss"
    and "msum (\<lambda>x y. x * x) xs' ys' ss
         = msum (\<lambda>x y. x * x) xs ys ss + 2 * dx * msum (\<lambda>x y. x) xs ys ss
           + dx * dx * msum (\<lambda>x y. 1) xs ys ss"
    and "msum (\<lambda>x y. y * y) xs' ys' ss
         = msum (\<lambda>x y. y * y) xs ys ss + 2 * dy * msum (\<lambda>x y. y) xs ys ss
           + dy * dy * msum (\<lambda>x y. 1) xs ys ss"
    and "msum (\<lambda>x y. x * y) xs' ys' ss
         = msum (\<lambda>x y. x * y) xs ys ss + dx * msum (\<lambda>x y. y) xs ys ss
           + dy * msum (\<lambda>x y. x) xs ys ss + dx * dy * msum (\<lambda>x y. 1) xs ys ss"
  using assms(1,2) unfolding xs'_def ys'_def
  by (induction xs ys ss rule: list_induct3) (simp_all add: algebra_simps)

text \<open>The moments of \<open>hillas_parameters\<close> on a finite image with non-zero total.\<close>

lemma hillas_vars_Fin:
  fixes xs ys ss :: "real list"
  assumes len: "length xs = length ys" "length ys = length ss"
    and M1: "msum (\<lambda>x y. 1) xs ys ss \<noteq> 0"
  defines "v \<equiv> hillas_body (map Fin xs) (map Fin ys) (map Fin ss)"
  defines "M1 \<equiv> msum (\<lambda>x y. 1) xs ys ss"
  defines "mx \<equiv> msum (\<lambda>x y. x) xs ys ss / M1"
  defines "my \<equiv> msum (\<lambda>x y. y) xs ys ss / M1"
  shows "v_m_x v = Fin mx" and "v_m_y v = Fin my"
    and "v_S_xx v = Fin (msum (\<lambda>x y. x * x) xs ys ss / M1 - mx * mx)"
    and "v_S_yy v = Fin (msum (\<lambda>x y. y * y) xs ys ss / M1 - my * my)"
    and "v_S_xy v = Fin (msum (\<lambda>x y. x * y) xs ys ss / M1 - mx * my)"
proof -
  note st = hillas_body_steps[of "map Fin xs" "map Fin ys" "map Fin ss", folded v_def]
  have s: "v_s v = Fin M1"
    unfolding st(1) M1_def by (rule sum_image[OF len])
  show mx: "v_m_x v = Fin mx"
    unfolding st(2) s sum_sx[OF len] using M1 by (simp add: mx_def M1_def)
  show my: "v_m_y v = Fin my"
    unfolding st(3) s sum_sx[OF len] using M1 by (simp add: my_def M1_def)
  have mxx: "v_m_xx v = Fin (msum (\<lambda>x y. x * x) xs ys ss / M1)"
    unfolding st(4) s sum_sx[OF len] using M1 by (simp add: M1_def)
  have myy: "v_m_yy v = Fin (msum (\<lambda>x y. y * y) xs ys ss / M1)"
    unfolding st(5) s sum_sx[OF len] using M1 by (simp add: M1_def)
  have mxy: "v_m_xy v = Fin (msum (\<lambda>x y. x * y) xs ys ss / M1)"
    unfolding st(6) s sum_sx[OF len] using M1 by (simp add: M1_def)
  show "v_S_xx v = Fin (msum (\<lambda>x y. x * x) xs ys ss / M1 - mx * mx)"
    unfolding st(7) mx mxx by simp
  show "v_S_yy v = Fin (msum (\<lambda>x y. y * y) xs ys ss / M1 - my * my)"
    unfolding st(8) my myy by simp
  show "v_S_xy v = Fin (msum (\<lambda>x y. x * y) xs ys ss / M1 - mx * my)"
    unfolding st(9) mx my mxy by simp
qed

lemma hillas_body_shift:
  fixes xs ys ss :: "real list" and dx dy :: real
  assumes len: "length xs = length ys" "length ys = length ss"
    and M1: "msum (\<lambda>x y. 1) xs ys ss \<noteq> 0"
  defines "v \<equiv> hillas_body (map Fin xs) (map Fin ys) (map Fin ss)"
  defines "v' \<equiv> hillas_body (map Fin (map (\<lambda>x. x + dx) xs)) (map Fin (map (\<lambda>y. y + dy) ys))
                   (map Fin ss)"
  shows "v_m_x v' = v_m_x v + Fin dx" and "v_m_y v' = v_m_y v + Fin dy"
    and "v_a v' = v_a v" and "v_width v' = v_width v" and "v_length v' = v_length v"
proof -
  define xs' ys' where "xs' = map (\<lambda>x. x + dx) xs" and "ys' = map (\<lambda>y. y + dy) ys"
  have len': "length xs' = length ys'" "length ys' = length ss"
    using len by (simp_all add: xs'_def ys'_def)
  note sh = msum_shift[OF len, of dx dy, folded xs'_def ys'_def]
  have M1': "msum (\<lambda>x y. 1) xs' ys' ss \<noteq> 0"
    unfolding sh by (rule M1)
  note st = hillas_body_steps[of "map Fin xs" "map Fin ys" "map Fin ss", folded v_def]
  note st' = hillas_body_steps[of "map Fin xs'" "map Fin ys'" "map Fin ss",
      unfolded xs'_def ys'_def, folded v'_def]
  note f = hillas_vars_Fin[OF len M1, folded v_def]
  note f' = hillas_vars_Fin[OF len' M1', unfolded xs'_def ys'_def, folded v'_def,
      folded xs'_def ys'_def, unfolded sh]
  show "v_m_x v' = v_m_x v + Fin dx"
    unfolding f f' using M1 by (simp add: field_simps)
  show "v_m_y v' = v_m_y v + Fin dy"
    unfolding f f' using M1 by (simp add: field_simps)
  have Sxx: "v_S_xx v' = v_S_xx v"
    unfolding f f' using M1 by (simp add: field_simps)
  have Syy: "v_S_yy v' = v_S_yy v"
    unfolding f f' using M1 by (simp add: field_simps)
  have Sxy: "v_S_xy v' = v_S_xy v"
    unfolding f f' using M1 by (simp add: field_simps)
  have d: "v_d v' = v_d v"
    unfolding st(10) st'(10) Sxx Syy ..
  have temp: "v_temp v' = v_temp v"
    unfolding st(11) st'(11) d Sxy ..
  show a: "v_a v' = v_a v"
    unfolding st(12) st'(12) d temp Sxy ..
  have "v_width_2 v' = v_width_2 v"
    unfolding st(14) st'(14) a Sxx Syy Sxy ..
  then show "v_width v' = v_width v"
    unfolding st(15) st'(15) by simp
  have "v_length_2 v' = v_length_2 v"
    unfolding st(16) st'(16) a Sxx Syy Sxy ..
  then show "v_length v' = v_length v"
    unfolding st(17) st'(17) by simp
qed

lemma hillas_2_body_shift:
  fixes xs ys ss :: "real list" and dx dy :: real
  assumes len: "length xs = length ys" "length ys = length ss"
    and M1: "msum (\<lambda>x y. 1) xs ys ss \<noteq> 0"
  defines "l \<equiv> hillas_2_body (map Fin xs) (map Fin ys) (map Fin ss)"
  defines "l' \<equiv> hillas_2_body (map Fin (map (\<lambda>x. x + dx) xs)) (map Fin (map (\<lambda>y. y + dy) ys))
                   (map Fin ss)"
  shows "l_moms l' ! 0 = l_moms l ! 0 + Fin dx" and "l_moms l' ! 1 = l_moms l ! 1 + Fin dy"
    and "l_width l' = l_width l" and "l_length l' = l_length l" and "l_size l' = l_size l"
    and "l_distance l' = np_hypot (l_moms l ! 0 + Fin dx) (l_moms l ! 1 + Fin dy)"
    and "l_phi l' = np_arctan2 (l_moms l ! 1 + Fin dy) (l_moms l ! 0 + Fin dx)"
proof -
  define xs' ys' where "xs' = map (\<lambda>x. x + dx) xs" and "ys' = map (\<lambda>y. y + dy) ys"
  have len': "length xs' = length ys'" "length ys' = length ss"
    using len by (simp_all add: xs'_def ys'_def)
  note sh = msum_shift[OF len, of dx dy, folded xs'_def ys'_def]
  have M1': "msum (\<lambda>x y. 1) xs' ys' ss \<noteq> 0"
    unfolding sh by (rule M1)
  note st = hillas_2_body_steps[of "map Fin xs" "map Fin ys" "map Fin ss", folded l_def]
  note st' = hillas_2_body_steps[of "map Fin xs'" "map Fin ys'" "map Fin ss",
      unfolded xs'_def ys'_def, folded l'_def]
  note m = hillas_2_moms_Fin[OF len M1, folded l_def]
  note m' = hillas_2_moms_Fin[OF len' M1', unfolded xs'_def ys'_def, folded l'_def,
      folded xs'_def ys'_def, unfolded sh]
  note f = hillas_2_vars_Fin[OF len M1, folded l_def]
  note f' = hillas_2_vars_Fin[OF len' M1', unfolded xs'_def ys'_def, folded l'_def,
      folded xs'_def ys'_def, unfolded sh]
  show cx: "l_moms l' ! 0 = l_moms l ! 0 + Fin dx"
    unfolding m m' using M1 by (simp add: field_simps)
  show cy: "l_moms l' ! 1 = l_moms l ! 1 + Fin dy"
    unfolding m m' using M1 by (simp add: field_simps)
  show "l_size l' = l_size l"
    unfolding m m' ..
  have vx2: "l_vx2 l' = l_vx2 l"
    unfolding f f' using M1 by (simp add: field_simps)
  have vy2: "l_vy2 l' = l_vy2 l"
    unfolding f f' using M1 by (simp add: field_simps)
  have vxy: "l_vxy l' = l_vxy l"
    unfolding f f' using M1 by (simp add: field_simps)
  have dd: "l_dd l' = l_dd l"
    unfolding st(6) st'(6) vx2 vy2 ..
  have zz: "l_zz l' = l_zz l"
    unfolding st(7) st'(7) dd vxy ..
  show "l_width l' = l_width l"
    unfolding st(11) st'(11) vx2 vy2 zz ..
  show "l_length l' = l_length l"
    unfolding st(12) st'(12) vx2 vy2 zz ..
  show "l_distance l' = np_hypot (l_moms l ! 0 + Fin dx) (l_moms l ! 1 + Fin dy)"
    unfolding st'(13) cx cy ..
  show "l_phi l' = np_arctan2 (l_moms l ! 1 + Fin dy) (l_moms l ! 0 + Fin dx)"
    unfolding st'(19) cx cy ..
qed


text \<open>
  In exact arithmetic (the operations on finite values above), a translation by
  \<open>(dx, dy)\<close> of a finite image with non-zero total leaves the central second moments, and
  with them \<open>width\<close> and \<open>length\<close>, unchanged and moves the centroid by \<open>(dx, dy)\<close>. The
  differences \<open>m_xx - m_x * m_x\<close> that the source computes in \<open>float64\<close> agree with this
  only up to rounding.
\<close>

lemma translation_exact:
  assumes "length xs = length ss" and "length ys = length ss" and "sum_list ss \<noteq> 0"
  shows "(\<exists>p p'. hillas_parameters (map Fin xs) (map Fin ys) (map Fin ss) = Inr p
            \<and> hillas_parameters (map Fin (map (\<lambda>x. x + dx) xs)) (map Fin (map (\<lambda>y. y + dy) ys))
                 (map Fin ss) = Inr p'
            \<and> p_width p' = p_width p \<and> p_length p' = p_length p \<and> p_a p' = p_a p
            \<and> p_x p' = p_x p + Fin dx \<and> p_y p' = p_y p + Fin dy)
       \<and> (\<exists>p p'. hillas_parameters_2 (map Fin xs) (map Fin ys) (map Fin ss) = Inr p
            \<and> hillas_parameters_2 (map Fin (map (\<lambda>x. x + dx) xs)) (map Fin (map (\<lambda>y. y + dy) ys))
                 (map Fin ss) = Inr p'
            \<and> h_width p' = h_width p \<and> h_length p' = h_length p \<and> h_size p' = h_size p
            \<and> h_cx p' = h_cx p + Fin dx \<and> h_cy p' = h_cy p + Fin dy
            \<and> h_distance p' = np_hypot (h_cx p + Fin dx) (h_cy p + Fin dy)
            \<and> h_phi p' = np_arctan2 (h_cy p + Fin dy) (h_cx p + Fin dx))"
proof -
  have len: "length xs = length ys" "length ys = length ss"
    using assms(1,2) by simp_all
  have nz: "msum (\<lambda>x y. 1) xs ys ss \<noteq> 0"
    using assms(3) by (simp add: msum_one[OF len])
  note h1 = hillas_body_shift[OF len nz, of dx dy]
  note h2 = hillas_2_body_shift[OF len nz, of dx dy]
  have 1: "\<exists>p p'. hillas_parameters (map Fin xs) (map Fin ys) (map Fin ss) = Inr p
            \<and> hillas_parameters (map Fin (map (\<lambda>x. x + dx) xs)) (map Fin (map (\<lambda>y. y + dy) ys))
                 (map Fin ss) = Inr p'
            \<and> p_width p' = p_width p \<and> p_length p' = p_length p \<and> p_a p' = p_a p
            \<and> p_x p' = p_x p + Fin dx \<and> p_y p' = p_y p + Fin dy"
    using assms(1,2) h1 by (simp add: hillas_parameters_def Let_def)
  have 2: "\<exists>p p'. hillas_parameters_2 (map Fin xs) (map Fin ys) (map Fin ss) = Inr p
            \<and> hillas_parameters_2 (map Fin (map (\<lambda>x. x + dx) xs)) (map Fin (map (\<lambda>y. y + dy) ys))
                 (map Fin ss) = Inr p'
            \<and> h_width p' = h_width p \<and> h_length p' = h_length p \<and> h_size p' = h_size p
            \<and> h_cx p' = h_cx p + Fin dx \<and> h_cy p' = h_cy p + Fin dy
            \<and> h_distance p' = np_hypot (h_cx p + Fin dx) (h_cy p + Fin dy)
            \<and> h_phi p' = np_arctan2 (h_cy p + Fin dy) (h_cx p + Fin dx)"
    using assms(1,2) h2 by (simp add: hillas_parameters_2_def Let_def)
  from 1 2 show ?thesis ..
qed





end
